theory Spec2Isabelle
  imports Complex_Main
begin

section \<open>Python values\<close>

text \<open>
  The program of \<^verbatim>\<open>src/main.py\<close> is one function, \<^verbatim>\<open>main\<close>. It handles four kinds
  of Python data: decoded JSON documents, protobuf messages read through their attributes,
  text that it builds (the proto schema), and the rows it writes as JSON.

  One datatype covers the Python values that occur: a decoded JSON document is a value
  without \<open>PyBytes\<close> and without \<open>PyRepeated\<close>; a row is a \<open>PyDict\<close>. \<open>PyRepeated\<close> is
  the container that a message gives for a repeated field: it holds the values in order and
  is not a list. A dictionary is an association list in insertion order, with distinct keys. A float is modelled by the rational number it denotes
  (NaN and the infinities are outside the model). Strings are lists of 8-bit characters; the
  names the program capitalises are ASCII (they become proto message names).
\<close>

datatype pyval =
    PyNone
  | PyBool bool
  | PyInt int
  | PyFloat rat
  | PyStr string
  | PyBytes string
  | PyList "pyval list"
  | PyRepeated "pyval list"
  | PyDict "(string \<times> pyval) list"

section \<open>Strings: \<^verbatim>\<open>split\<close>, \<^verbatim>\<open>capitalize\<close>, \<^verbatim>\<open>str\<close> of an integer\<close>

text \<open>\<^verbatim>\<open>s.split(d)\<close> with a one-character separator: every occurrence splits, empty
  segments are kept, and the empty string gives one empty segment.\<close>

fun split_on :: "char \<Rightarrow> string \<Rightarrow> string list" where
  "split_on d [] = [[]]"
| "split_on d (c # cs) =
     (if c = d then [] # split_on d cs
      else (case split_on d cs of
              [] \<Rightarrow> [[c]]
            | w # ws \<Rightarrow> (c # w) # ws))"

definition upper_char :: "char \<Rightarrow> char" where
  "upper_char c =
     (let n = (of_char c :: nat)
      in if 97 \<le> n \<and> n \<le> 122 then char_of (n - 32) else c)"

definition lower_char :: "char \<Rightarrow> char" where
  "lower_char c =
     (let n = (of_char c :: nat)
      in if 65 \<le> n \<and> n \<le> 90 then char_of (n + 32) else c)"

text \<open>\<^verbatim>\<open>s.capitalize()\<close>: the first character upper-cased, all others lower-cased.\<close>

fun capitalize :: "string \<Rightarrow> string" where
  "capitalize [] = []"
| "capitalize (c # cs) = upper_char c # map lower_char cs"

text \<open>Lines 74-75 and 102-103 of \<^verbatim>\<open>main\<close>:
  \<^verbatim>\<open>class_words = f"{a}_{b}".split("_")\<close>,
  \<^verbatim>\<open>class_name = "".join(name.capitalize() for name in class_words)\<close>.\<close>

definition class_words :: "string \<Rightarrow> string \<Rightarrow> string list" where
  "class_words a b = split_on CHR ''_'' (a @ ''_'' @ b)"

definition class_name :: "string \<Rightarrow> string \<Rightarrow> string" where
  "class_name a b = concat (map capitalize (class_words a b))"

text \<open>The reading of the key that takes the two names joined with nothing between them,
  \<open>tableName + sheetName\<close>, split and capitalised in the same way.\<close>

definition type_key_plain :: "string \<Rightarrow> string \<Rightarrow> string" where
  "type_key_plain a b = concat (map capitalize (split_on CHR ''_'' (a @ b)))"

text \<open>\<^verbatim>\<open>str(n)\<close> for an integer, as an f-string renders it: decimal digits, a minus sign
  for a negative number.\<close>

definition digit_char :: "nat \<Rightarrow> char" where
  "digit_char d = char_of (48 + d)"

function str_nat :: "nat \<Rightarrow> string" where
  "str_nat n = (if n < 10 then [digit_char n] else str_nat (n div 10) @ [digit_char (n mod 10)])"
  by pat_completeness auto
termination
  by (relation "measure id") auto

definition str_int :: "int \<Rightarrow> string" where
  "str_int i = (if i < 0 then ''-'' @ str_nat (nat (- i)) else str_nat (nat i))"

section \<open>The bundle: schemas and data blocks\<close>

text \<open>
  \<^verbatim>\<open>config_table\<close> is a \<^verbatim>\<open>ConfigTables\<close> message. The program reads these attributes
  of it: \<^verbatim>\<open>schemas\<close> (each with \<^verbatim>\<open>name\<close> and \<^verbatim>\<open>sheets\<close>), the sheets' \<^verbatim>\<open>name\<close> and
  \<^verbatim>\<open>fields\<close>, the fields' \<^verbatim>\<open>field_name\<close>, \<^verbatim>\<open>array_length\<close>, \<^verbatim>\<open>pb_type\<close> and
  \<^verbatim>\<open>pb_index\<close>, and \<^verbatim>\<open>datas\<close> (each with \<^verbatim>\<open>table\<close>, \<^verbatim>\<open>sheet\<close> and the raw rows
  \<^verbatim>\<open>data\<close>).
\<close>

record field_def =
  field_name :: string
  array_length :: int
  pb_type :: string
  pb_index :: int

record sheet_def =
  sheet_name :: string
  sheet_fields :: "field_def list"

record schema_def =
  schema_name :: string
  sheets :: "sheet_def list"

record data_block =
  table :: string
  sheet :: string
  data :: "string list"

record config_tables =
  schemas :: "schema_def list"
  datas :: "data_block list"

section \<open>Writing the schema text (lines 70-79)\<close>

text \<open>The label written in front of a field:
  \<^verbatim>\<open>"repeated" if field.array_length > 0 else ""\<close>.\<close>

definition label_word :: "field_def \<Rightarrow> string" where
  "label_word f = (if array_length f > 0 then ''repeated'' else '''')"

text \<open>Line 78: one declaration line of a field, appended to the text.\<close>

definition field_line :: "field_def \<Rightarrow> string" where
  "field_line f =
     ''  '' @ label_word f @ '' '' @ pb_type f @ '' '' @ field_name f
       @ '' = '' @ str_int (pb_index f) @ '';'' @ [CHR 0x0A]"

text \<open>The three nested loops, each threading the text \<open>new_proto\<close> that \<^verbatim>\<open>+=\<close> extends.\<close>

fun add_fields :: "string \<Rightarrow> field_def list \<Rightarrow> string" where
  "add_fields new_proto [] = new_proto"
| "add_fields new_proto (f # fs) = add_fields (new_proto @ field_line f) fs"

definition add_sheet :: "string \<Rightarrow> string \<Rightarrow> sheet_def \<Rightarrow> string" where
  "add_sheet schema new_proto parsed =
     add_fields
       (new_proto @ ''message '' @ class_name schema (sheet_name parsed) @ '' {'' @ [CHR 0x0A])
       (sheet_fields parsed)
     @ ''}'' @ [CHR 0x0A, CHR 0x0A]"

fun add_sheets :: "string \<Rightarrow> string \<Rightarrow> sheet_def list \<Rightarrow> string" where
  "add_sheets schema new_proto [] = new_proto"
| "add_sheets schema new_proto (p # ps) = add_sheets schema (add_sheet schema new_proto p) ps"

fun add_schemas :: "string \<Rightarrow> schema_def list \<Rightarrow> string" where
  "add_schemas new_proto [] = new_proto"
| "add_schemas new_proto (s # ss) =
     add_schemas (add_sheets (schema_name s) new_proto (sheets s)) ss"

definition proto_header :: string where
  "proto_header = ''syntax = \"proto3\";'' @ [CHR 0x0A, CHR 0x0A]"

definition make_proto :: "config_tables \<Rightarrow> string" where
  "make_proto config_table = add_schemas proto_header (schemas config_table)"

section \<open>Operations on Python values\<close>

datatype error =
    SystemExit int
  | ConnectionError
  | JSONDecodeError
  | FileNotFoundError string
  | FileExistsError string
  | KeyError string
  | TypeError
  | AttributeError
  | NameError string
  | DecodeError
  | ExecError

text \<open>\<^verbatim>\<open>==\<close> on decoded JSON documents: numbers compare by value (\<^verbatim>\<open>True == 1\<close> and
  \<^verbatim>\<open>1 == 1.0\<close> hold), lists element by element, dictionaries as sets of items whatever the
  order of the keys. A repeated container compares as the list of its values.\<close>

fun num_val :: "pyval \<Rightarrow> rat option" where
  "num_val (PyBool b) = Some (if b then 1 else 0)"
| "num_val (PyInt i) = Some (of_int i)"
| "num_val (PyFloat r) = Some r"
| "num_val _ = None"

fun py_eq :: "pyval \<Rightarrow> pyval \<Rightarrow> bool"
  and py_eq_list :: "pyval list \<Rightarrow> pyval list \<Rightarrow> bool"
  and dict_has :: "string \<Rightarrow> pyval \<Rightarrow> (string \<times> pyval) list \<Rightarrow> bool"
  and dict_sub :: "(string \<times> pyval) list \<Rightarrow> (string \<times> pyval) list \<Rightarrow> bool"
where
  "py_eq PyNone b = (b = PyNone)"
| "py_eq (PyStr s) b = (b = PyStr s)"
| "py_eq (PyBytes s) b = (b = PyBytes s)"
| "py_eq (PyList xs) b =
     (case b of PyList ys \<Rightarrow> py_eq_list xs ys | PyRepeated ys \<Rightarrow> py_eq_list xs ys | _ \<Rightarrow> False)"
| "py_eq (PyRepeated xs) b =
     (case b of PyList ys \<Rightarrow> py_eq_list xs ys | PyRepeated ys \<Rightarrow> py_eq_list xs ys | _ \<Rightarrow> False)"
| "py_eq (PyDict kvs) b =
     (case b of PyDict kvs' \<Rightarrow> length kvs = length kvs' \<and> dict_sub kvs kvs' | _ \<Rightarrow> False)"
| "py_eq (PyBool x) b = (num_val b = Some (if x then 1 else 0))"
| "py_eq (PyInt i) b = (num_val b = Some (of_int i))"
| "py_eq (PyFloat r) b = (num_val b = Some r)"
| "py_eq_list [] ys = (ys = [])"
| "py_eq_list (x # xs) ys = (case ys of [] \<Rightarrow> False | y # ys' \<Rightarrow> py_eq x y \<and> py_eq_list xs ys')"
| "dict_has k v [] = False"
| "dict_has k v ((k', v') # kvs) = (if k' = k then py_eq v v' else dict_has k v kvs)"
| "dict_sub [] kvs' = True"
| "dict_sub ((k, v) # kvs) kvs' = (dict_has k v kvs' \<and> dict_sub kvs kvs')"

text \<open>Truth value of a Python value, as \<^verbatim>\<open>not x\<close> reads it.\<close>

fun truthy :: "pyval \<Rightarrow> bool" where
  "truthy PyNone = False"
| "truthy (PyBool b) = b"
| "truthy (PyInt i) = (i \<noteq> 0)"
| "truthy (PyFloat r) = (r \<noteq> 0)"
| "truthy (PyStr s) = (s \<noteq> [])"
| "truthy (PyBytes s) = (s \<noteq> [])"
| "truthy (PyList xs) = (xs \<noteq> [])"
| "truthy (PyRepeated xs) = (xs \<noteq> [])"
| "truthy (PyDict kvs) = (kvs \<noteq> [])"

text \<open>\<^verbatim>\<open>x[key]\<close> with a string key: a dictionary gives the value or raises KeyError, every
  other value raises TypeError.\<close>

fun getitem :: "pyval \<Rightarrow> string \<Rightarrow> error + pyval" where
  "getitem (PyDict kvs) key = (case map_of kvs key of None \<Rightarrow> Inl (KeyError key) | Some v \<Rightarrow> Inr v)"
| "getitem _ key = Inl TypeError"

text \<open>\<^verbatim>\<open>x.items()\<close>: only a dictionary has the method.\<close>

fun items :: "pyval \<Rightarrow> error + (string \<times> pyval) list" where
  "items (PyDict kvs) = Inr kvs"
| "items _ = Inl AttributeError"

definition endswith :: "string \<Rightarrow> string \<Rightarrow> bool" where
  "endswith s t = (length t \<le> length s \<and> drop (length s - length t) s = t)"

text \<open>\<^verbatim>\<open>list(x)\<close>: a list of the elements of an iterable; a number, a boolean or None is
  not iterable.\<close>

fun py_list :: "pyval \<Rightarrow> error + pyval" where
  "py_list (PyList xs) = Inr (PyList xs)"
| "py_list (PyRepeated xs) = Inr (PyList xs)"
| "py_list (PyStr s) = Inr (PyList (map (\<lambda>c. PyStr [c]) s))"
| "py_list (PyBytes s) = Inr (PyList (map (\<lambda>c. PyInt (of_char c)) s))"
| "py_list (PyDict kvs) = Inr (PyList (map (\<lambda>kv. PyStr (fst kv)) kvs))"
| "py_list _ = Inl TypeError"

text \<open>\<^verbatim>\<open>row[name] = value\<close>: an existing key keeps its place and takes the new value, a new
  key goes to the end.\<close>

fun dict_set :: "(string \<times> pyval) list \<Rightarrow> string \<Rightarrow> pyval \<Rightarrow> (string \<times> pyval) list" where
  "dict_set [] k v = [(k, v)]"
| "dict_set ((k', v') # kvs) k v = (if k' = k then (k, v) # kvs else (k', v') # dict_set kvs k v)"

text \<open>What \<^verbatim>\<open>json.dump\<close> accepts: everything but bytes and repeated containers.\<close>

fun json_ok :: "pyval \<Rightarrow> bool" where
  "json_ok (PyBytes s) = False"
| "json_ok (PyRepeated xs) = False"
| "json_ok (PyList xs) = list_all json_ok xs"
| "json_ok (PyDict kvs) = list_all (\<lambda>kv. json_ok (snd kv)) kvs"
| "json_ok _ = True"

section \<open>Files, the network and the external tools\<close>

text \<open>
  The content of a file or of an HTTP response body. A text that is a JSON document is
  identified with the value it decodes to; \<open>Blob\<close> is any other sequence of bytes;
  \<open>Partial\<close> is the beginning of a JSON text, left behind by a \<^verbatim>\<open>json.dump\<close> that
  raised while writing.
\<close>

datatype content = JsonDoc pyval | Blob string | Partial

text \<open>\<^verbatim>\<open>json.load\<close> and \<^verbatim>\<open>response.json()\<close>: the decoded document, or JSONDecodeError.\<close>

fun json_of :: "content \<Rightarrow> pyval option" where
  "json_of (JsonDoc v) = (if json_ok v then Some v else None)"
| "json_of _ = None"

text \<open>What the run does that can be seen from outside, in order.\<close>

datatype event = Print string | Get string | Write string | Run string

record world =
  files :: "string \<rightharpoonup> content"
  out :: "event list"

definition emit :: "event \<Rightarrow> world \<Rightarrow> world" where
  "emit e w = w\<lparr>out := out w @ [e]\<rparr>"

text \<open>\<^verbatim>\<open>open(path, "w")\<close> creates the file or empties it. The model's file system takes
  every path; \<^verbatim>\<open>mkdir\<close> changes nothing in it.\<close>

definition open_w :: "string \<Rightarrow> world \<Rightarrow> world" where
  "open_w path w = emit (Write path) (w\<lparr>files := (files w)(path \<mapsto> Blob [])\<rparr>)"

text \<open>What the file holds once the \<^verbatim>\<open>with\<close> block is left.\<close>

definition put :: "string \<Rightarrow> content \<Rightarrow> world \<Rightarrow> world" where
  "put path c w = w\<lparr>files := (files w)(path \<mapsto> c)\<rparr>"

text \<open>\<^verbatim>\<open>with open(path, "wb") as f: f.write(c)\<close>.\<close>

definition write_file :: "string \<Rightarrow> content \<Rightarrow> world \<Rightarrow> world" where
  "write_file path c w = put path c (open_w path w)"

text \<open>\<^verbatim>\<open>json.dump(v, f)\<close> into a file opened for writing: bytes or a repeated container
  anywhere in \<open>v\<close> raise TypeError, after part of the text has been written.\<close>

definition dump_json :: "string \<Rightarrow> pyval \<Rightarrow> world \<Rightarrow> (error + unit) \<times> world" where
  "dump_json path v w =
     (if json_ok v then (Inr (), put path (JsonDoc v) w)
      else (Inl TypeError, put path Partial w))"

subsection \<open>Message classes\<close>

text \<open>
  A generated message class is known by \<^verbatim>\<open>klass().DESCRIPTOR.fields\<close>, the descriptors of
  its fields in declaration order; the program reads \<^verbatim>\<open>name\<close> and \<^verbatim>\<open>label\<close> of a
  descriptor. Field types are the scalar types of proto3 (message-typed fields are outside
  the data model).
\<close>

datatype field_label = LABEL_OPTIONAL | LABEL_REQUIRED | LABEL_REPEATED

datatype scalar_type =
    TYPE_DOUBLE | TYPE_FLOAT
  | TYPE_INT32 | TYPE_INT64 | TYPE_UINT32 | TYPE_UINT64 | TYPE_SINT32 | TYPE_SINT64
  | TYPE_FIXED32 | TYPE_FIXED64 | TYPE_SFIXED32 | TYPE_SFIXED64
  | TYPE_BOOL | TYPE_STRING | TYPE_BYTES

record field_descriptor =
  fd_name :: string
  fd_label :: field_label
  fd_type :: scalar_type

type_synonym message_class = "field_descriptor list"

text \<open>
  What a global name can be bound to: a generated message class; the class \<^verbatim>\<open>Path\<close> of
  \<^verbatim>\<open>pathlib\<close>; the class \<^verbatim>\<open>FieldDescriptor\<close> of the protobuf library; or some other
  object, one that cannot be called and has none of the attributes the program reads (a
  module, a file descriptor of a generated module).
\<close>

datatype pyobj = MessageClass message_class | PathClass | FieldDescriptorClass | OtherObject

text \<open>A message instance: its class, and for each field name the values that the parsed
  bytes carried for it, in the order read (none for a fresh instance).\<close>

record message =
  msg_class :: message_class
  msg_values :: "string \<Rightarrow> pyval list"

text \<open>The value of a scalar field that is not set.\<close>

fun default_value :: "scalar_type \<Rightarrow> pyval" where
  "default_value TYPE_DOUBLE = PyFloat 0"
| "default_value TYPE_FLOAT = PyFloat 0"
| "default_value TYPE_BOOL = PyBool False"
| "default_value TYPE_STRING = PyStr []"
| "default_value TYPE_BYTES = PyBytes []"
| "default_value _ = PyInt 0"

text \<open>\<^verbatim>\<open>hasattr(field, name)\<close>: a message has one attribute for each field of its class.\<close>

definition hasattr :: "message \<Rightarrow> string \<Rightarrow> bool" where
  "hasattr field name = (name \<in> set (map fd_name (msg_class field)))"

text \<open>\<^verbatim>\<open>getattr(field, d.name)\<close> for a descriptor \<open>d\<close> of the message's class: a repeated
  field gives the container of all its values (a container, not a list), a singular field
  the last value read or the default of its type.\<close>

definition getattr :: "message \<Rightarrow> field_descriptor \<Rightarrow> pyval" where
  "getattr field d =
     (if fd_label d = LABEL_REPEATED then PyRepeated (msg_values field (fd_name d))
      else (case msg_values field (fd_name d) of
              [] \<Rightarrow> default_value (fd_type d)
            | v # vs \<Rightarrow> last (v # vs)))"

subsection \<open>The environment of a run\<close>

text \<open>
  Everything the program obtains from outside its own text is a parameter:
  \<^item> \<open>requests_get\<close>: the body that \<^verbatim>\<open>requests.get(url)\<close> returns, \<open>None\<close> when the
    request raises;
  \<^item> \<open>py_str\<close>: the text an f-string puts for a value;
  \<^item> \<open>protoc_installed\<close>, \<open>protoc\<close>: the compiler; \<open>protoc\<close> gives the Python module for
    a proto file, \<open>None\<close> when it rejects the file;
  \<^item> \<open>exec_code\<close>: the names that \<^verbatim>\<open>exec(code, globals())\<close> defines, or the exception.
    A generated module binds its message classes and objects of its own; a class can take
    the name \<^verbatim>\<open>Path\<close> or \<^verbatim>\<open>FieldDescriptor\<close>, and the program then finds the class
    under that name. The model follows the three capitalised names that the program reads
    after an \<^verbatim>\<open>exec\<close> (\<^verbatim>\<open>ConfigTables\<close>, \<^verbatim>\<open>Path\<close>, \<^verbatim>\<open>FieldDescriptor\<close>); the
    lower-case names it reads (\<^verbatim>\<open>json\<close>, \<^verbatim>\<open>subprocess\<close>, the builtins) are taken as
    left alone;
  \<^item> \<open>parse_tables\<close>: \<^verbatim>\<open>ConfigTables().ParseFromString\<close> for the class that a module
    defines, on the bytes of the bundle; \<open>None\<close> is DecodeError;
  \<^item> \<open>ParseFromString\<close>: parsing one raw row with a generated class; \<open>None\<close> is
    DecodeError.
\<close>

record env =
  requests_get :: "string \<Rightarrow> content option"
  py_str :: "pyval \<Rightarrow> string"
  protoc_installed :: bool
  protoc :: "content \<Rightarrow> content option"
  exec_code :: "content \<Rightarrow> error + (string \<rightharpoonup> pyobj)"
  parse_tables :: "content \<Rightarrow> content \<Rightarrow> config_tables option"
  ParseFromString :: "message_class \<Rightarrow> string \<Rightarrow> (string \<Rightarrow> pyval list) option"

section \<open>Exporting the rows (lines 100-129)\<close>

text \<open>\<^verbatim>\<open>FieldDescriptor.LABEL_REPEATED\<close> on line 121. The name \<^verbatim>\<open>FieldDescriptor\<close> is a
  global, looked up when the line runs: the class that line 4 imports has the constant; a
  generated message class that a module has bound to the name since has no such attribute
  (nor has any other object).\<close>

definition label_repeated :: "(string \<rightharpoonup> pyobj) \<Rightarrow> error + field_label" where
  "label_repeated globals =
     (case globals ''FieldDescriptor'' of
        None \<Rightarrow> Inl (NameError ''FieldDescriptor'')
      | Some FieldDescriptorClass \<Rightarrow> Inr LABEL_REPEATED
      | Some other \<Rightarrow> Inl AttributeError)"

text \<open>Lines 118-125: the dictionary of one parsed row, one descriptor after the other.\<close>

fun row_loop :: "(string \<rightharpoonup> pyobj) \<Rightarrow> message \<Rightarrow> (string \<times> pyval) list
                   \<Rightarrow> field_descriptor list \<Rightarrow> error + (string \<times> pyval) list" where
  "row_loop globals field row [] = Inr row"
| "row_loop globals field row (d # ds) =
     (if hasattr field (fd_name d) then
        (let value = getattr field d in
         case label_repeated globals of
           Inl e \<Rightarrow> Inl e
         | Inr repeated \<Rightarrow>
             if fd_label d = repeated then
               (case py_list value of
                  Inl e \<Rightarrow> Inl e
                | Inr value' \<Rightarrow> row_loop globals field (dict_set row (fd_name d) value') ds)
             else row_loop globals field (dict_set row (fd_name d) value) ds)
      else row_loop globals field (dict_set row (fd_name d) PyNone) ds)"

text \<open>\<^verbatim>\<open>klass()\<close>, a call without arguments: a message class and \<^verbatim>\<open>Path\<close> give an
  instance, which the result names by its class; \<^verbatim>\<open>FieldDescriptor\<close> needs arguments and
  the other objects cannot be called.\<close>

fun new_instance :: "pyobj \<Rightarrow> error + pyobj" where
  "new_instance (MessageClass k) = Inr (MessageClass k)"
| "new_instance PathClass = Inr PathClass"
| "new_instance FieldDescriptorClass = Inl TypeError"
| "new_instance OtherObject = Inl TypeError"

text \<open>Lines 115-126: one raw row. An instance of \<^verbatim>\<open>Path\<close> has no
  \<^verbatim>\<open>ParseFromString\<close>.\<close>

definition decode_row :: "env \<Rightarrow> (string \<rightharpoonup> pyobj) \<Rightarrow> pyobj \<Rightarrow> string \<Rightarrow> error + pyval" where
  "decode_row E globals klass field_msg =
     (case new_instance klass of
        Inl e \<Rightarrow> Inl e
      | Inr (MessageClass k) \<Rightarrow>
          (case ParseFromString E k field_msg of
             None \<Rightarrow> Inl DecodeError
           | Some vals \<Rightarrow>
               (case row_loop globals \<lparr>msg_class = k, msg_values = vals\<rparr> [] k of
                  Inl e \<Rightarrow> Inl e
                | Inr row \<Rightarrow> Inr (PyDict row)))
      | Inr other \<Rightarrow> Inl AttributeError)"

text \<open>Lines 114-126: the loop over \<^verbatim>\<open>data.data\<close>, appending to \<^verbatim>\<open>json_data\<close>. An
  exception leaves the loop at once.\<close>

fun rows_loop :: "env \<Rightarrow> (string \<rightharpoonup> pyobj) \<Rightarrow> pyobj \<Rightarrow> pyval list \<Rightarrow> string list
                    \<Rightarrow> error + pyval list" where
  "rows_loop E globals klass json_data [] = Inr json_data"
| "rows_loop E globals klass json_data (field_msg # rest) =
     (case decode_row E globals klass field_msg of
        Inl e \<Rightarrow> Inl e
      | Inr row \<Rightarrow> rows_loop E globals klass (json_data @ [row]) rest)"

definition output_file :: "string \<Rightarrow> string" where
  "output_file cn = ''data/'' @ cn @ ''.json''"

text \<open>Lines 102-128: one data block. The class is looked up first; then the file is opened
  for writing, which empties it; the rows are decoded; \<^verbatim>\<open>json.dump\<close> writes them all at
  the end. (\<^verbatim>\<open>hasattr(data, "data")\<close> holds for every block: \<^verbatim>\<open>data\<close> is a field of
  its class.)\<close>

definition export_block :: "env \<Rightarrow> (string \<rightharpoonup> pyobj) \<Rightarrow> data_block \<Rightarrow> world
                              \<Rightarrow> (error + unit) \<times> world" where
  "export_block E globals d w =
     (let cn = class_name (table d) (sheet d) in
      case globals cn of
        None \<Rightarrow> (Inl (KeyError cn), w)
      | Some klass \<Rightarrow>
          (let w1 = open_w (output_file cn) w in
           case rows_loop E globals klass [] (data d) of
             Inl e \<Rightarrow> (Inl e, w1)
           | Inr json_data \<Rightarrow> dump_json (output_file cn) (PyList json_data) w1))"

fun export_loop :: "env \<Rightarrow> (string \<rightharpoonup> pyobj) \<Rightarrow> data_block list \<Rightarrow> world
                      \<Rightarrow> (error + unit) \<times> world" where
  "export_loop E globals [] w = (Inr (), w)"
| "export_loop E globals (d # ds) w =
     (case export_block E globals d w of
        (Inl e, w') \<Rightarrow> (Inl e, w')
      | (Inr u, w') \<Rightarrow> export_loop E globals ds w')"

section \<open>The run (lines 8-129)\<close>

definition URL :: string where
  "URL = ''https://game.maj-soul.com/1''"

text \<open>Lines 9-21: fetch the live version, read the local one, stop when they are equal,
  otherwise store the live one. The result is \<^verbatim>\<open>live_version\<close>.\<close>

definition check_version :: "env \<Rightarrow> world \<Rightarrow> (error + pyval) \<times> world" where
  "check_version E w =
     (let w1 = emit (Get (URL @ ''/version.json'')) w in
      case requests_get E (URL @ ''/version.json'') of
        None \<Rightarrow> (Inl ConnectionError, w1)
      | Some body \<Rightarrow>
     (case json_of body of
        None \<Rightarrow> (Inl JSONDecodeError, w1)
      | Some live_version \<Rightarrow>
     (case files w1 ''version.json'' of
        None \<Rightarrow> (Inl (FileNotFoundError ''version.json''), w1)
      | Some c \<Rightarrow>
     (case json_of c of
        None \<Rightarrow> (Inl JSONDecodeError, w1)
      | Some local_version \<Rightarrow>
          if py_eq local_version live_version
          then (Inl (SystemExit 0), emit (Print ''No update'') w1)
          else
            (let w2 = emit (Print (''New Live version: '' @ py_str E live_version)) w1;
                 w3 = open_w ''version.json'' w2
             in case dump_json ''version.json'' live_version w3 of
                  (Inl e, w4) \<Rightarrow> (Inl e, w4)
                | (Inr u, w4) \<Rightarrow> (Inr live_version, w4))))))"

text \<open>Lines 31-35: the loop over the items of \<^verbatim>\<open>resversion_req["res"]\<close>; the state is
  \<^verbatim>\<open>(config_proto_info, lqc_info)\<close>.\<close>

fun scan_res :: "pyval \<times> pyval \<Rightarrow> (string \<times> pyval) list \<Rightarrow> pyval \<times> pyval" where
  "scan_res (config_proto_info, lqc_info) [] = (config_proto_info, lqc_info)"
| "scan_res (config_proto_info, lqc_info) ((file_path, info) # rest) =
     (if endswith file_path ''config.proto'' then scan_res (info, lqc_info) rest
      else if endswith file_path ''lqc.lqbin'' then scan_res (config_proto_info, info) rest
      else scan_res (config_proto_info, lqc_info) rest)"

text \<open>Lines 23-39: fetch the resource index of the live version and find the two entries.\<close>

definition find_resources :: "env \<Rightarrow> pyval \<Rightarrow> world \<Rightarrow> (error + pyval \<times> pyval) \<times> world" where
  "find_resources E live_version w =
     (case getitem live_version ''version'' of
        Inl e \<Rightarrow> (Inl e, w)
      | Inr version \<Rightarrow>
     (let resversion_URL = URL @ ''/resversion'' @ py_str E version @ ''.json'';
          w1 = emit (Get resversion_URL) w
      in case requests_get E resversion_URL of
        None \<Rightarrow> (Inl ConnectionError, w1)
      | Some body \<Rightarrow>
     (case json_of body of
        None \<Rightarrow> (Inl JSONDecodeError, w1)
      | Some resversion_req \<Rightarrow>
     (case getitem resversion_req ''res'' of
        Inl e \<Rightarrow> (Inl e, w1)
      | Inr res \<Rightarrow>
     (case items res of
        Inl e \<Rightarrow> (Inl e, w1)
      | Inr kvs \<Rightarrow>
          (let found = scan_res (PyNone, PyNone) kvs in
           if \<not> truthy (fst found) \<or> \<not> truthy (snd found)
           then (Inl (SystemExit 1), emit (Print ''config.proto or lqc.lqbin not found'') w1)
           else (Inr found, w1)))))))"

text \<open>Lines 41-52: the two downloads.\<close>

definition download :: "env \<Rightarrow> pyval \<times> pyval \<Rightarrow> world \<Rightarrow> (error + unit) \<times> world" where
  "download E found w =
     (case getitem (fst found) ''prefix'' of
        Inl e \<Rightarrow> (Inl e, w)
      | Inr prefix1 \<Rightarrow>
     (case getitem (snd found) ''prefix'' of
        Inl e \<Rightarrow> (Inl e, w)
      | Inr prefix2 \<Rightarrow>
     (let config_proto_url = URL @ ''/'' @ py_str E prefix1 @ ''/res/proto/config.proto'';
          lqc_url = URL @ ''/'' @ py_str E prefix2 @ ''/res/config/lqc.lqbin'';
          w1 = emit (Get config_proto_url) (emit (Print ''Download config.proto...'') w)
      in case requests_get E config_proto_url of
        None \<Rightarrow> (Inl ConnectionError, w1)
      | Some body1 \<Rightarrow>
     (let w2 = write_file ''config.proto'' body1 w1;
          w3 = emit (Get lqc_url) (emit (Print ''Download lqc.lqbin...'') w2)
      in case requests_get E lqc_url of
        None \<Rightarrow> (Inl ConnectionError, w3)
      | Some body2 \<Rightarrow> (Inr (), write_file ''lqc.lqbin'' body2 w3)))))"

text \<open>Lines 54 and 89: \<^verbatim>\<open>subprocess.run(["protoc", "--python_out=.", name + ".proto"])\<close>.
  A missing program raises; the exit status of the compiler is not looked at.\<close>

definition run_protoc :: "env \<Rightarrow> string \<Rightarrow> world \<Rightarrow> (error + unit) \<times> world" where
  "run_protoc E name w =
     (let w1 = emit (Run (''protoc --python_out=. '' @ name @ ''.proto'')) w in
      if \<not> protoc_installed E then (Inl (FileNotFoundError ''protoc''), w1)
      else (case files w1 (name @ ''.proto'') of
              None \<Rightarrow> (Inr (), w1)
            | Some src \<Rightarrow>
                (case protoc E src of
                   None \<Rightarrow> (Inr (), w1)
                 | Some generated \<Rightarrow> (Inr (), put (name @ ''_pb2.py'') generated w1))))"

text \<open>The globals of the module before any generated code is executed: its imports and
  \<^verbatim>\<open>main\<close> itself. (The names \<^verbatim>\<open>subprocess\<close>, \<^verbatim>\<open>json\<close>, \<^verbatim>\<open>requests\<close> and
  \<^verbatim>\<open>main\<close> start with a lower-case letter; no class name does, see
  \<open>class_name_not_lower\<close>, so line 104 never finds them.)\<close>

definition main_globals :: "string \<rightharpoonup> pyobj" where
  "main_globals =
     [''Path'' \<mapsto> PathClass, ''subprocess'' \<mapsto> OtherObject, ''json'' \<mapsto> OtherObject,
      ''FieldDescriptor'' \<mapsto> FieldDescriptorClass, ''requests'' \<mapsto> OtherObject,
      ''main'' \<mapsto> OtherObject]"

text \<open>\<^verbatim>\<open>Path(name)\<close> after generated code has been executed: the name \<^verbatim>\<open>Path\<close> is a
  global, looked up when the line runs. A generated message class bound to it takes no
  positional argument, \<^verbatim>\<open>FieldDescriptor\<close> needs more than one, another object cannot be
  called.\<close>

definition call_path :: "(string \<rightharpoonup> pyobj) \<Rightarrow> error + unit" where
  "call_path globals =
     (case globals ''Path'' of
        None \<Rightarrow> Inl (NameError ''Path'')
      | Some PathClass \<Rightarrow> Inr ()
      | Some other \<Rightarrow> Inl TypeError)"

text \<open>Lines 54-66: compile the downloaded schema, load it, parse the bundle. After
  \<^verbatim>\<open>exec\<close> the names \<^verbatim>\<open>ConfigTables\<close> (line 63) and \<^verbatim>\<open>Path\<close> (line 64) are what the
  globals hold then.\<close>

definition load_tables :: "env \<Rightarrow> world
                             \<Rightarrow> (error + (string \<rightharpoonup> pyobj) \<times> config_tables) \<times> world" where
  "load_tables E w =
     (case run_protoc E ''config'' w of
        (Inl e, w1) \<Rightarrow> (Inl e, w1)
      | (Inr u, w1) \<Rightarrow>
     (let w2 = emit (Print ''Load config_pb2.py...'') w1 in
      case files w2 ''config_pb2.py'' of
        None \<Rightarrow> (Inl (FileNotFoundError ''config_pb2.py''), w2)
      | Some config_pb2_code \<Rightarrow>
     (case exec_code E config_pb2_code of
        Inl e \<Rightarrow> (Inl e, w2)
      | Inr defs \<Rightarrow>
     (let globals = main_globals ++ defs;
          w3 = emit (Print ''Load tables from lqc.lqbin...'') w2
      in case globals ''ConfigTables'' of
        None \<Rightarrow> (Inl (NameError ''ConfigTables''), w3)
      | Some cls \<Rightarrow>
     (case new_instance cls of
        Inl e \<Rightarrow> (Inl e, w3)
      | Inr config_table \<Rightarrow>
     (case call_path globals of
        Inl e \<Rightarrow> (Inl e, w3)
      | Inr u \<Rightarrow>
     (case files w3 ''lqc.lqbin'' of
        None \<Rightarrow> (Inl (FileNotFoundError ''lqc.lqbin''), w3)
      | Some lqc \<Rightarrow>
     (case config_table of
        MessageClass k \<Rightarrow>
          (case parse_tables E config_pb2_code lqc of
             None \<Rightarrow> (Inl DecodeError, w3)
           | Some parsed \<Rightarrow> (Inr (globals, parsed), w3))
      | other \<Rightarrow> (Inl AttributeError, w3)))))))))"

text \<open>Lines 68-89: write the schema of the tables and compile it. (\<^verbatim>\<open>Path\<close> on line 82
  is bound as on line 64, which has run; no code is executed between the two.)\<close>

definition generate :: "env \<Rightarrow> config_tables \<Rightarrow> world \<Rightarrow> (error + unit) \<times> world" where
  "generate E config_table w =
     (let w1 = emit (Print ''Create parsed proto data...'') w;
          new_proto = make_proto config_table;
          w2 = emit (Print ''Write parsed.proto...'') w1;
          w3 = write_file ''parsed.proto'' (Blob new_proto) w2;
          w4 = emit (Print ''Generate complete'') w3;
          w5 = emit (Print ''Generate parsed_pb2.py...'') w4
      in run_protoc E ''parsed'' w5)"

text \<open>Lines 91-129: load the generated classes and export every data block. \<^verbatim>\<open>Path\<close>
  on line 92 is bound as on line 64; on line 97 it is what the globals hold after the second
  \<^verbatim>\<open>exec\<close>. \<^verbatim>\<open>mkdir(parents=True, exist_ok=True)\<close> accepts a directory that exists and
  raises when \<^verbatim>\<open>data\<close> is a file; in the model's file system, which holds files only, it
  changes nothing else.\<close>

definition export :: "env \<Rightarrow> (string \<rightharpoonup> pyobj) \<Rightarrow> config_tables \<Rightarrow> world
                        \<Rightarrow> (error + unit) \<times> world" where
  "export E globals config_table w =
     (let w1 = emit (Print ''Load parsed_pb2.py...'') w in
      case files w1 ''parsed_pb2.py'' of
        None \<Rightarrow> (Inl (FileNotFoundError ''parsed_pb2.py''), w1)
      | Some parsed_pb2_code \<Rightarrow>
     (case exec_code E parsed_pb2_code of
        Inl e \<Rightarrow> (Inl e, w1)
      | Inr defs \<Rightarrow>
     (case call_path (globals ++ defs) of
        Inl e \<Rightarrow> (Inl e, w1)
      | Inr u \<Rightarrow>
     (case files w1 ''data'' of
        Some c \<Rightarrow> (Inl (FileExistsError ''data''), w1)
      | None \<Rightarrow>
     (let w2 = emit (Print ''Export data to json...'') w1 in
      case export_loop E (globals ++ defs) (datas config_table) w2 of
        (Inl e, w3) \<Rightarrow> (Inl e, w3)
      | (Inr u, w3) \<Rightarrow> (Inr (), emit (Print ''Export complete'') w3))))))"

text \<open>Everything after the version check, lines 23-129.\<close>

definition update :: "env \<Rightarrow> pyval \<Rightarrow> world \<Rightarrow> (error + unit) \<times> world" where
  "update E live_version w =
     (case find_resources E live_version w of
        (Inl e, w1) \<Rightarrow> (Inl e, w1)
      | (Inr found, w1) \<Rightarrow>
     (case download E found w1 of
        (Inl e, w2) \<Rightarrow> (Inl e, w2)
      | (Inr u, w2) \<Rightarrow>
     (case load_tables E w2 of
        (Inl e, w3) \<Rightarrow> (Inl e, w3)
      | (Inr (globals, config_table), w3) \<Rightarrow>
     (case generate E config_table w3 of
        (Inl e, w4) \<Rightarrow> (Inl e, w4)
      | (Inr u, w4) \<Rightarrow> export E globals config_table w4))))"

definition main :: "env \<Rightarrow> world \<Rightarrow> (error + unit) \<times> world" where
  "main E w =
     (case check_version E w of
        (Inl e, w1) \<Rightarrow> (Inl e, w1)
      | (Inr live_version, w1) \<Rightarrow> update E live_version w1)"

section \<open>Closed forms used in the statements\<close>

text \<open>One name, split at the underscores, every segment capitalised, the segments joined.\<close>

definition camel :: "string \<Rightarrow> string" where
  "camel s = concat (map capitalize (split_on CHR ''_'' s))"

text \<open>The text of one message of the schema: the header with the class name, one line per
  field in the order of \<^verbatim>\<open>parsed.fields\<close>, the closing brace.\<close>

definition message_text :: "string \<Rightarrow> sheet_def \<Rightarrow> string" where
  "message_text schema parsed =
     ''message '' @ class_name schema (sheet_name parsed) @ '' {'' @ [CHR 0x0A]
       @ concat (map field_line (sheet_fields parsed)) @ ''}'' @ [CHR 0x0A, CHR 0x0A]"

text \<open>The entry of a field in the dictionary of a message: the list of the values of a
  repeated field, the attribute value of a singular one.\<close>

definition row_value :: "message \<Rightarrow> field_descriptor \<Rightarrow> pyval" where
  "row_value field d =
     (if fd_label d = LABEL_REPEATED then PyList (msg_values field (fd_name d))
      else getattr field d)"

definition row_of :: "message \<Rightarrow> field_descriptor list \<Rightarrow> (string \<times> pyval) list" where
  "row_of field ds = map (\<lambda>d. (fd_name d, row_value field d)) ds"

text \<open>\<open>keeps p w w'\<close>: from \<open>w\<close> to \<open>w'\<close> the file \<open>p\<close> is untouched and the events
  of \<open>w\<close> are the beginning of those of \<open>w'\<close>.\<close>

definition keeps :: "string \<Rightarrow> world \<Rightarrow> world \<Rightarrow> bool" where
  "keeps p w w' = (files w' p = files w p \<and> (\<exists>evs. out w' = out w @ evs))"

text \<open>A name of ASCII characters. On such names \<open>capitalize\<close> is Python's
  \<^verbatim>\<open>str.capitalize\<close>; on other letters Python changes case too, and may change the
  length.\<close>

definition ascii_name :: "string \<Rightarrow> bool" where
  "ascii_name s = list_all (\<lambda>c. (of_char c :: nat) < 128) s"






text \<open>The names of the scalar types of proto3, the closed set of wire-type strings that
  the specification recognises.\<close>

definition primitive_names :: "string list" where
  "primitive_names =
     [''double'', ''float'', ''int32'', ''int64'', ''uint32'', ''uint64'', ''sint32'',
      ''sint64'', ''fixed32'', ''fixed64'', ''sfixed32'', ''sfixed64'', ''bool'', ''string'',
      ''bytes'']"

section \<open>A concrete environment\<close>

text \<open>
  The table of the specification's end-to-end scenario: \<open>Item\<close> with a singular integer
  \<open>id\<close> and a repeated string \<open>tags\<close>, and the class generated for it.
\<close>

definition item_class :: message_class where
  "item_class =
     [\<lparr>fd_name = ''id'', fd_label = LABEL_OPTIONAL, fd_type = TYPE_INT32\<rparr>,
      \<lparr>fd_name = ''tags'', fd_label = LABEL_REPEATED, fd_type = TYPE_STRING\<rparr>]"

definition item_globals :: "string \<rightharpoonup> pyobj" where
  "item_globals = main_globals(''ItemItem'' \<mapsto> MessageClass item_class)"

text \<open>A row parser for that class that knows two shapes of row: the empty row, which sets
  no field, and the two bytes \<open>0x08 v\<close> with \<open>v < 128\<close>, which set field 1, \<open>id\<close>, to
  \<open>v\<close>. Every other row is rejected; among them the single byte \<open>0x08\<close>, a tag whose
  value is missing.\<close>

fun item_parse :: "message_class \<Rightarrow> string \<Rightarrow> (string \<Rightarrow> pyval list) option" where
  "item_parse k [] = Some (\<lambda>n. [])"
| "item_parse k [t, v] =
     (if t = CHR 0x08 \<and> (of_char v :: nat) < 128
      then Some (\<lambda>n. if n = ''id'' then [PyInt (of_char v)] else [])
      else None)"
| "item_parse k row = None"

definition live_doc :: pyval where
  "live_doc = PyDict [(''version'', PyStr ''0.11.1.w''), (''force_version'', PyStr ''0.10.0.w'')]"

definition old_doc :: pyval where
  "old_doc = PyDict [(''version'', PyStr ''0.11.0.w''), (''force_version'', PyStr ''0.10.0.w'')]"

text \<open>A server that answers the version request only, no compiler output, and the row
  parser above.\<close>

definition version_only_get :: "string \<Rightarrow> content option" where
  "version_only_get url = (if url = URL @ ''/version.json'' then Some (JsonDoc live_doc) else None)"

text \<open>The text an f-string puts for a value, right for a string and for a dictionary whose
  values are plain strings (no quote, no backslash); the runs below format nothing else.\<close>

fun join_with :: "string \<Rightarrow> string list \<Rightarrow> string" where
  "join_with sep [] = []"
| "join_with sep [x] = x"
| "join_with sep (x # y # ys) = x @ sep @ join_with sep (y # ys)"

fun item_text :: "string \<times> pyval \<Rightarrow> string" where
  "item_text (k, PyStr s) = [CHR 0x27] @ k @ [CHR 0x27] @ '': '' @ [CHR 0x27] @ s @ [CHR 0x27]"
| "item_text (k, v) = [CHR 0x27] @ k @ [CHR 0x27] @ '': ''"

fun str_of_text :: "pyval \<Rightarrow> string" where
  "str_of_text (PyStr s) = s"
| "str_of_text (PyDict kvs) = ''{'' @ join_with '', '' (map item_text kvs) @ ''}''"
| "str_of_text v = []"

definition item_env :: env where
  "item_env =
     \<lparr>requests_get = version_only_get,
      py_str = str_of_text,
      protoc_installed = True,
      protoc = (\<lambda>src. None),
      exec_code = (\<lambda>code. Inl ExecError),
      parse_tables = (\<lambda>code lqc. None),
      ParseFromString = item_parse\<rparr>"

definition disk :: "pyval \<Rightarrow> world" where
  "disk local_version = \<lparr>files = [''version.json'' \<mapsto> JsonDoc local_version], out = []\<rparr>"

definition empty_world :: world where
  "empty_world = \<lparr>files = Map.empty, out = []\<rparr>"

text \<open>Bundles for the schema step: a field of an unknown type, and two fields with the
  same index.\<close>

definition unknown_type_tables :: config_tables where
  "unknown_type_tables =
     \<lparr>schemas = [\<lparr>schema_name = ''item'', sheets =
        [\<lparr>sheet_name = ''item'', sheet_fields =
           [\<lparr>field_name = ''id'', array_length = 0, pb_type = ''varchar'', pb_index = 1\<rparr>]\<rparr>]\<rparr>],
      datas = []\<rparr>"

definition same_index_tables :: config_tables where
  "same_index_tables =
     \<lparr>schemas = [\<lparr>schema_name = ''item'', sheets =
        [\<lparr>sheet_name = ''item'', sheet_fields =
           [\<lparr>field_name = ''id'', array_length = 0, pb_type = ''uint32'', pb_index = 1\<rparr>,
            \<lparr>field_name = ''tags'', array_length = 2, pb_type = ''string'', pb_index = 1\<rparr>]\<rparr>]\<rparr>],
      datas = []\<rparr>"


text \<open>Data blocks of the table \<open>item\<close>/\<open>item\<close>.\<close>

definition item_block :: "string list \<Rightarrow> data_block" where
  "item_block rows = \<lparr>table = ''item'', sheet = ''item'', data = rows\<rparr>"

text \<open>A table and a sheet whose names mix upper and lower case, and the data block of
  that table.\<close>

definition mixed_sheet :: sheet_def where
  "mixed_sheet = \<lparr>sheet_name = ''itemGroup'', sheet_fields = []\<rparr>"

definition mixed_schema :: schema_def where
  "mixed_schema = \<lparr>schema_name = ''ITEM_definition'', sheets = [mixed_sheet]\<rparr>"

definition mixed_block :: data_block where
  "mixed_block = \<lparr>table = ''ITEM_definition'', sheet = ''itemGroup'', data = []\<rparr>"

text \<open>Globals in which a generated class has taken the name \<^verbatim>\<open>FieldDescriptor\<close>: the
  class of a table \<open>field\<close>/\<open>descriptor\<close>.\<close>

definition shadowed_globals :: "string \<rightharpoonup> pyobj" where
  "shadowed_globals = item_globals(''FieldDescriptor'' \<mapsto> MessageClass [])"

section \<open>Lemmas on the strings and the schema text\<close>

lemma split_on_not_Nil: "split_on d xs \<noteq> []"
  by (induction xs) (auto split: list.splits)

lemma split_on_append: "split_on d (xs @ d # ys) = split_on d xs @ split_on d ys"
  by (induction xs) (auto split: list.splits simp: split_on_not_Nil)

lemma add_fields_concat: "add_fields acc fs = acc @ concat (map field_line fs)"
  by (induction fs arbitrary: acc) auto

lemma add_sheet_text: "add_sheet schema acc p = acc @ message_text schema p"
  by (simp add: add_sheet_def add_fields_concat message_text_def)

lemma add_sheets_text: "add_sheets schema acc ps = acc @ concat (map (message_text schema) ps)"
  by (induction ps arbitrary: acc) (auto simp: add_sheet_text)

lemma add_schemas_text:
  "add_schemas acc ss
     = acc @ concat (map (\<lambda>s. concat (map (message_text (schema_name s)) (sheets s))) ss)"
  by (induction ss arbitrary: acc) (auto simp: add_sheets_text)

lemma make_proto_text:
  "make_proto ct
     = proto_header
       @ concat (map (\<lambda>s. concat (map (message_text (schema_name s)) (sheets s))) (schemas ct))"
  by (simp add: make_proto_def add_schemas_text)

lemma concat_map_mem: "x \<in> set xs \<Longrightarrow> \<exists>pre post. concat (map f xs) = pre @ f x @ post"
proof (induction xs)
  case Nil
  then show ?case by simp
next
  case (Cons a xs)
  show ?case
  proof (cases "x = a")
    case True
    have "concat (map f (a # xs)) = [] @ f x @ concat (map f xs)"
      using True by simp
    then show ?thesis by blast
  next
    case False
    with Cons obtain pre post where "concat (map f xs) = pre @ f x @ post"
      by auto
    then have "concat (map f (a # xs)) = (f a @ pre) @ f x @ post"
      by simp
    then show ?thesis by blast
  qed
qed

lemma field_line_in_proto:
  assumes "s \<in> set (schemas ct)" "p \<in> set (sheets s)" "f \<in> set (sheet_fields p)"
  shows "\<exists>pre post. make_proto ct = pre @ field_line f @ post"
proof -
  obtain a b where 1: "concat (map field_line (sheet_fields p)) = a @ field_line f @ b"
    using concat_map_mem [OF assms(3)] by blast
  obtain c d where 2: "concat (map (message_text (schema_name s)) (sheets s))
      = c @ message_text (schema_name s) p @ d"
    using concat_map_mem [OF assms(2)] by blast
  obtain e g where 3:
    "concat (map (\<lambda>s. concat (map (message_text (schema_name s)) (sheets s))) (schemas ct))
      = e @ concat (map (message_text (schema_name s)) (sheets s)) @ g"
    using concat_map_mem [OF assms(1),
        of "\<lambda>s. concat (map (message_text (schema_name s)) (sheets s))"] by blast
  show ?thesis
    unfolding make_proto_text 3 2 message_text_def 1
    by (metis append.assoc)
qed

lemma split_on_no_delimiter: "d \<notin> set xs \<Longrightarrow> split_on d xs = [xs]"
  by (induction xs) auto

lemma camel_append: "camel a @ camel b = concat (map capitalize (split_on CHR ''_'' (a @ ''_'' @ b)))"
  by (simp add: camel_def split_on_append)

lemma class_name_camel: "class_name a b = camel a @ camel b"
  by (simp add: class_name_def class_words_def camel_def split_on_append)

lemma upper_char_not_lower:
  "\<not> (97 \<le> (of_char (upper_char c) :: nat) \<and> (of_char (upper_char c) :: nat) \<le> 122)"
proof -
  have "(of_char (char_of ((of_char c :: nat) - 32) :: char) :: nat) = ((of_char c :: nat) - 32) mod 256"
    by (rule of_char_of)
  then show ?thesis
    by (auto simp: upper_char_def Let_def)
qed

lemma capitalized_not_lower:
  "concat (map capitalize xs) = c # rest \<Longrightarrow>
   \<not> (97 \<le> (of_char c :: nat) \<and> (of_char c :: nat) \<le> 122)"
proof (induction xs)
  case Nil
  then show ?case by simp
next
  case (Cons x xs)
  show ?case
  proof (cases x)
    case Nil
    then show ?thesis using Cons by simp
  next
    case (Cons y ys)
    then have "c = upper_char y"
      using Cons.prems by simp
    then show ?thesis
      using upper_char_not_lower [of y] by simp
  qed
qed

lemma class_name_not_lower:
  "class_name a b = c # rest \<Longrightarrow> \<not> (97 \<le> (of_char c :: nat) \<and> (of_char c :: nat) \<le> 122)"
  unfolding class_name_def by (rule capitalized_not_lower)




section \<open>Lemmas on the world\<close>

lemma files_open_w: "files (open_w p w) = (files w)(p \<mapsto> Blob [])"
  by (simp add: open_w_def emit_def)

lemma files_put: "files (put p c w) = (files w)(p \<mapsto> c)"
  by (simp add: put_def)

lemma files_emit: "files (emit e w) = files w"
  by (simp add: emit_def)

lemma keeps_refl: "keeps p w w"
  by (simp add: keeps_def)

lemma keeps_trans: "keeps p w w1 \<Longrightarrow> keeps p w1 w2 \<Longrightarrow> keeps p w w2"
  by (auto simp: keeps_def)

lemma keeps_emit: "keeps p w w' \<Longrightarrow> keeps p w (emit e w')"
  by (auto simp: keeps_def emit_def)

lemma keeps_put: "q \<noteq> p \<Longrightarrow> keeps p w w' \<Longrightarrow> keeps p w (put q c w')"
  by (auto simp: keeps_def put_def)

lemma keeps_open_w: "q \<noteq> p \<Longrightarrow> keeps p w w' \<Longrightarrow> keeps p w (open_w q w')"
  by (auto simp: keeps_def open_w_def emit_def)

lemma keeps_write_file: "q \<noteq> p \<Longrightarrow> keeps p w w' \<Longrightarrow> keeps p w (write_file q c w')"
  unfolding write_file_def by (intro keeps_put keeps_open_w)

lemma output_file_inj: "(output_file a = output_file b) = (a = b)"
  by (simp add: output_file_def)

lemma output_file_not_version: "output_file cn \<noteq> ''version.json''"
  by (simp add: output_file_def)

lemma json_of_ok: "json_of c = Some v \<Longrightarrow> json_ok v"
  by (cases c) (auto split: if_splits)

section \<open>The grouping key\<close>

text \<open>
  Claim C4, as amended. For a table name and a sheet name of ASCII characters, the key is
  computed from the table name, the delimiter \<open>_\<close> and the sheet name joined in this
  order: the result is split at every \<open>_\<close>, each segment is capitalised (first character to
  upper case, the others to lower case) and the segments are joined. The key is therefore
  the normalised table name followed by the normalised sheet name. The schema step and the
  export step both use it: the message that the schema step writes for a sheet is named by
  the key, and for a data block with the table and sheet names of that sheet the export
  step looks the same key up in the globals, fails with KeyError on that key when no class
  has it, and otherwise opens the file named after it.
\<close>

theorem class_name_key:
  assumes "ascii_name (table d)" "ascii_name (sheet d)"
    and "table d = schema_name s" "sheet d = sheet_name p"
  shows "add_sheet (schema_name s) acc p
       = acc @ ''message '' @ camel (table d) @ camel (sheet d) @ '' {'' @ [CHR 0x0A]
           @ concat (map field_line (sheet_fields p)) @ ''}'' @ [CHR 0x0A, CHR 0x0A]
     \<and> (globals (camel (table d) @ camel (sheet d)) = None
          \<longrightarrow> export_block E globals d w
                = (Inl (KeyError (camel (table d) @ camel (sheet d))), w))
     \<and> (globals (camel (table d) @ camel (sheet d)) \<noteq> None
          \<longrightarrow> out (snd (export_block E globals d w))
                = out w @ [Write (''data/'' @ camel (table d) @ camel (sheet d) @ ''.json'')])
     \<and> camel (table d) @ camel (sheet d)
         = concat (map capitalize (split_on CHR ''_'' (table d @ ''_'' @ sheet d)))
     \<and> (CHR ''_'' \<notin> set (table d) \<longrightarrow> camel (table d) = capitalize (table d))"
proof -
  have 1: "add_sheet (schema_name s) acc p
       = acc @ ''message '' @ camel (table d) @ camel (sheet d) @ '' {'' @ [CHR 0x0A]
           @ concat (map field_line (sheet_fields p)) @ ''}'' @ [CHR 0x0A, CHR 0x0A]"
    using assms(3,4) by (simp add: add_sheet_def add_fields_concat class_name_camel)
  have 2: "export_block E globals d w = (Inl (KeyError (camel (table d) @ camel (sheet d))), w)"
    if "globals (camel (table d) @ camel (sheet d)) = None"
    using that by (simp add: export_block_def Let_def class_name_camel)
  have 3: "out (snd (export_block E globals d w))
       = out w @ [Write (''data/'' @ camel (table d) @ camel (sheet d) @ ''.json'')]"
    if "globals (camel (table d) @ camel (sheet d)) \<noteq> None"
    using that
    by (auto simp: export_block_def Let_def class_name_camel output_file_def open_w_def
        emit_def dump_json_def put_def split: sum.splits)
  have 4: "camel (table d) @ camel (sheet d)
         = concat (map capitalize (split_on CHR ''_'' (table d @ ''_'' @ sheet d)))"
    by (rule camel_append)
  have 5: "camel (table d) = capitalize (table d)" if "CHR ''_'' \<notin> set (table d)"
    using that by (simp add: camel_def split_on_no_delimiter)
  show ?thesis
    using 1 2 3 4 5 by blast
qed

theorem class_name_key_witness:
  "ascii_name (table mixed_block) \<and> ascii_name (sheet mixed_block)
   \<and> table mixed_block = schema_name mixed_schema \<and> sheet mixed_block = sheet_name mixed_sheet
   \<and> camel (table mixed_block) @ camel (sheet mixed_block) = ''ItemDefinitionItemgroup''
   \<and> add_sheet (schema_name mixed_schema) [] mixed_sheet
       = ''message ItemDefinitionItemgroup {'' @ [CHR 0x0A] @ ''}'' @ [CHR 0x0A, CHR 0x0A]
   \<and> export_block item_env item_globals mixed_block empty_world
       = (Inl (KeyError ''ItemDefinitionItemgroup''), empty_world)
   \<and> item_globals ''ItemItem'' \<noteq> None
   \<and> out (snd (export_block item_env item_globals (item_block []) empty_world))
       = [Write ''data/ItemItem.json'']"
proof -
  have h1: "ascii_name (table mixed_block)" and h2: "ascii_name (sheet mixed_block)"
    by (simp_all add: ascii_name_def mixed_block_def)
  have h3: "table mixed_block = schema_name mixed_schema"
    and h4: "sheet mixed_block = sheet_name mixed_sheet"
    by (simp_all add: mixed_block_def mixed_schema_def mixed_sheet_def)
  have k: "camel (table mixed_block) @ camel (sheet mixed_block) = ''ItemDefinitionItemgroup''"
    by code_simp
  have a: "add_sheet (schema_name mixed_schema) [] mixed_sheet
       = ''message ItemDefinitionItemgroup {'' @ [CHR 0x0A] @ ''}'' @ [CHR 0x0A, CHR 0x0A]"
    by code_simp
  have g: "item_globals (camel (table mixed_block) @ camel (sheet mixed_block)) = None"
    unfolding k by (simp add: item_globals_def main_globals_def)
  have "export_block item_env item_globals mixed_block empty_world
      = (Inl (KeyError (camel (table mixed_block) @ camel (sheet mixed_block))), empty_world)"
    using class_name_key [OF h1 h2 h3 h4, of "[]" item_globals item_env empty_world] g
    by blast
  then have x: "export_block item_env item_globals mixed_block empty_world
      = (Inl (KeyError ''ItemDefinitionItemgroup''), empty_world)"
    unfolding k .
  have i1: "ascii_name (table (item_block []))" and i2: "ascii_name (sheet (item_block []))"
    by (simp_all add: ascii_name_def item_block_def)
  have i3: "table (item_block []) = schema_name \<lparr>schema_name = ''item'', sheets = []\<rparr>"
    and i4: "sheet (item_block []) = sheet_name \<lparr>sheet_name = ''item'', sheet_fields = []\<rparr>"
    by (simp_all add: item_block_def)
  have ik: "camel (table (item_block [])) @ camel (sheet (item_block [])) = ''ItemItem''"
    by code_simp
  have ig: "item_globals ''ItemItem'' \<noteq> None"
    by (simp add: item_globals_def)
  then have ig': "item_globals (camel (table (item_block [])) @ camel (sheet (item_block [])))
      \<noteq> None"
    unfolding ik .
  have "out (snd (export_block item_env item_globals (item_block []) empty_world))
      = out empty_world
        @ [Write (''data/'' @ camel (table (item_block [])) @ camel (sheet (item_block []))
                  @ ''.json'')]"
    using class_name_key [OF i1 i2 i3 i4, of "[]" item_globals item_env empty_world] ig'
    by blast
  moreover have "out empty_world
        @ [Write (''data/'' @ camel (table (item_block [])) @ camel (sheet (item_block []))
                  @ ''.json'')] = [Write ''data/ItemItem.json'']"
    by code_simp
  ultimately have y: "out (snd (export_block item_env item_globals (item_block []) empty_world))
      = [Write ''data/ItemItem.json'']"
    by simp
  show ?thesis
    using h1 h2 h3 h4 k a x ig y by blast
qed

text \<open>
  The claim as stated joins the two names with nothing between them. For the table
  \<open>item\<close> and the sheet \<open>definition\<close> that reading gives \<open>Itemdefinition\<close>, the program
  gives \<open>ItemDefinition\<close>.
\<close>

theorem class_name_key_counterexample:
  "class_name ''item'' ''definition'' = ''ItemDefinition''
   \<and> type_key_plain ''item'' ''definition'' = ''Itemdefinition''"
  by code_simp

section \<open>The schema text\<close>




lemma generate_result:
  "fst (generate E ct w) = (if protoc_installed E then Inr () else Inl (FileNotFoundError ''protoc''))"
  by (simp add: generate_def run_protoc_def Let_def split: option.split)

lemma generate_writes:
  "files (snd (generate E ct w)) ''parsed.proto'' = Some (Blob (make_proto ct))"
  by (simp add: generate_def run_protoc_def Let_def files_put files_emit write_file_def
      files_open_w split: option.split)

text \<open>
  Claim C6, as amended. The schema step does not look at the wire-type string of a field:
  whatever \<open>pb_type\<close> holds, recognised or not, the declaration line of the field with that
  string in it is part of the text written to \<^verbatim>\<open>parsed.proto\<close>, and the step raises no
  error for it (the only error of the step is a missing compiler program). Whether the type
  exists is left to the external compiler, whose verdict the program does not read.
\<close>

theorem pb_type_copied:
  assumes "s \<in> set (schemas ct)" "p \<in> set (sheets s)" "f \<in> set (sheet_fields p)"
  shows "files (snd (generate E ct w)) ''parsed.proto'' = Some (Blob (make_proto ct))
     \<and> (\<exists>pre post. make_proto ct
           = pre @ ''  '' @ label_word f @ '' '' @ pb_type f @ '' '' @ field_name f
               @ '' = '' @ str_int (pb_index f) @ '';'' @ [CHR 0x0A] @ post)
     \<and> fst (generate E ct w)
         = (if protoc_installed E then Inr () else Inl (FileNotFoundError ''protoc''))"
proof -
  obtain pre post where "make_proto ct = pre @ field_line f @ post"
    using field_line_in_proto [OF assms] by blast
  then have "make_proto ct
      = pre @ ''  '' @ label_word f @ '' '' @ pb_type f @ '' '' @ field_name f
          @ '' = '' @ str_int (pb_index f) @ '';'' @ [CHR 0x0A] @ post"
    by (simp add: field_line_def)
  then show ?thesis
    using generate_writes [of E ct w] generate_result [of E ct w] by blast
qed

theorem pb_type_copied_witness:
  "pb_type (hd (sheet_fields (hd (sheets (hd (schemas unknown_type_tables)))))) = ''varchar''
   \<and> files (snd (generate item_env unknown_type_tables empty_world)) ''parsed.proto''
       = Some (Blob (make_proto unknown_type_tables))
   \<and> fst (generate item_env unknown_type_tables empty_world) = Inr ()"
proof -
  have h: "hd (schemas unknown_type_tables) \<in> set (schemas unknown_type_tables)"
    "hd (sheets (hd (schemas unknown_type_tables))) \<in> set (sheets (hd (schemas unknown_type_tables)))"
    "hd (sheet_fields (hd (sheets (hd (schemas unknown_type_tables)))))
       \<in> set (sheet_fields (hd (sheets (hd (schemas unknown_type_tables)))))"
    by (simp_all add: unknown_type_tables_def)
  have i: "protoc_installed item_env"
    by (simp add: item_env_def)
  show ?thesis
    using pb_type_copied [OF h, of item_env empty_world] i
    by (simp add: unknown_type_tables_def)
qed

text \<open>
  The claim as stated asks for an error that names the string. A field of type
  \<open>varchar\<close>, which is no primitive name, goes through the schema step without an error
  and is written with that type.
\<close>

theorem pb_type_copied_counterexample:
  "''varchar'' \<notin> set primitive_names
   \<and> fst (generate item_env unknown_type_tables empty_world) = Inr ()
   \<and> files (snd (generate item_env unknown_type_tables empty_world)) ''parsed.proto''
       = Some (Blob (''syntax = \"proto3\";'' @ [CHR 0x0A, CHR 0x0A]
                     @ ''message ItemItem {'' @ [CHR 0x0A]
                     @ ''   varchar id = 1;'' @ [CHR 0x0A]
                     @ ''}'' @ [CHR 0x0A, CHR 0x0A]))"
  by code_simp

text \<open>
  Claim C7, as amended. The schema step does not compare the indices of the fields of a
  table: the text written is the header line followed, for every sheet of every schema in
  order, by one message with one declaration line per field in declaration order, each with
  the index it came with. Two fields with the same index are both declared, and the step
  raises no error for them.
\<close>

theorem declarations_as_given:
  "make_proto ct
     = proto_header
       @ concat (map (\<lambda>s. concat (map (message_text (schema_name s)) (sheets s))) (schemas ct))
   \<and> message_text schema p
     = ''message '' @ class_name schema (sheet_name p) @ '' {'' @ [CHR 0x0A]
       @ concat (map field_line (sheet_fields p)) @ ''}'' @ [CHR 0x0A, CHR 0x0A]
   \<and> fst (generate E ct w)
     = (if protoc_installed E then Inr () else Inl (FileNotFoundError ''protoc''))"
  using make_proto_text [of ct] generate_result [of E ct w]
  by (simp add: message_text_def)

text \<open>
  The claim as stated asks for a validation error. Two fields that both carry index 1 go
  through the schema step without an error, and both are declared with index 1.
\<close>

theorem declarations_as_given_counterexample:
  "map pb_index (sheet_fields (hd (sheets (hd (schemas same_index_tables))))) = [1, 1]
   \<and> fst (generate item_env same_index_tables empty_world) = Inr ()
   \<and> files (snd (generate item_env same_index_tables empty_world)) ''parsed.proto''
       = Some (Blob (''syntax = \"proto3\";'' @ [CHR 0x0A, CHR 0x0A]
                     @ ''message ItemItem {'' @ [CHR 0x0A]
                     @ ''   uint32 id = 1;'' @ [CHR 0x0A]
                     @ ''  repeated string tags = 1;'' @ [CHR 0x0A]
                     @ ''}'' @ [CHR 0x0A, CHR 0x0A]))"
  by code_simp

section \<open>Lemmas on rows and export\<close>

lemma label_repeated_bound:
  "globals ''FieldDescriptor'' = Some FieldDescriptorClass \<Longrightarrow>
   label_repeated globals = Inr LABEL_REPEATED"
  by (simp add: label_repeated_def)

lemma row_loop_step:
  assumes "label_repeated globals = Inr LABEL_REPEATED" "hasattr field (fd_name d)"
  shows "row_loop globals field row (d # ds)
     = row_loop globals field (dict_set row (fd_name d) (row_value field d)) ds"
  using assms by (simp add: Let_def row_value_def getattr_def)

lemma dict_set_fresh: "k \<notin> set (map fst row) \<Longrightarrow> dict_set row k v = row @ [(k, v)]"
  by (induction row) auto

lemma row_loop_distinct:
  assumes "label_repeated globals = Inr LABEL_REPEATED"
    and "set ds \<subseteq> set (msg_class field)" "distinct (map fd_name ds)"
    "set (map fst row) \<inter> set (map fd_name ds) = {}"
  shows "row_loop globals field row ds = Inr (row @ row_of field ds)"
  using assms(2-)
proof (induction ds arbitrary: row)
  case Nil
  then show ?case by (simp add: row_of_def)
next
  case (Cons d ds)
  have h: "hasattr field (fd_name d)"
    using Cons.prems(1) by (auto simp: hasattr_def)
  have fresh: "fd_name d \<notin> set (map fst row)"
    using Cons.prems(3) by auto
  have step: "dict_set row (fd_name d) (row_value field d) = row @ [(fd_name d, row_value field d)]"
    using fresh by (rule dict_set_fresh)
  have ih: "row_loop globals field (row @ [(fd_name d, row_value field d)]) ds
      = Inr ((row @ [(fd_name d, row_value field d)]) @ row_of field ds)"
    using Cons.prems by (intro Cons.IH) auto
  show ?case
    using step ih by (simp only: row_loop_step [OF assms(1) h]) (simp add: row_of_def)
qed

lemma row_loop_class:
  assumes "label_repeated globals = Inr LABEL_REPEATED" "distinct (map fd_name k)"
  shows "row_loop globals \<lparr>msg_class = k, msg_values = vals\<rparr> [] k
     = Inr (row_of \<lparr>msg_class = k, msg_values = vals\<rparr> k)"
  using row_loop_distinct [OF assms(1), of k "\<lparr>msg_class = k, msg_values = vals\<rparr>" "[]"] assms(2)
  by simp

lemma row_loop_total:
  assumes "label_repeated globals = Inr LABEL_REPEATED"
  shows "set ds \<subseteq> set (msg_class field) \<Longrightarrow> \<exists>row'. row_loop globals field row ds = Inr row'"
proof (induction ds arbitrary: row)
  case Nil
  then show ?case by simp
next
  case (Cons d ds)
  have h: "hasattr field (fd_name d)"
    using Cons.prems(1) by (auto simp: hasattr_def)
  from Cons have "\<exists>row'. row_loop globals field (dict_set row (fd_name d) (row_value field d)) ds
      = Inr row'"
    by simp
  then show ?case
    by (simp only: row_loop_step [OF assms h])
qed

lemma row_loop_shadowed:
  assumes "label_repeated globals = Inl e" "set ds \<subseteq> set (msg_class field)" "ds \<noteq> []"
  shows "row_loop globals field row ds = Inl e"
proof (cases ds)
  case Nil
  with assms(3) show ?thesis by simp
next
  case (Cons d ds')
  have "hasattr field (fd_name d)"
    using assms(2) Cons by (auto simp: hasattr_def)
  then show ?thesis
    using assms(1) Cons by (simp add: Let_def)
qed

lemma map_of_row_of:
  assumes "distinct (map fd_name ds)" "d \<in> set ds"
  shows "map_of (row_of field ds) (fd_name d) = Some (row_value field d)"
proof -
  have "distinct (map fst (row_of field ds))"
    using assms(1) by (simp add: row_of_def comp_def)
  moreover have "(fd_name d, row_value field d) \<in> set (row_of field ds)"
    using assms(2) by (auto simp: row_of_def)
  ultimately show ?thesis
    by (rule map_of_is_SomeI)
qed

lemma decode_row_class:
  assumes "label_repeated globals = Inr LABEL_REPEATED"
    and "distinct (map fd_name k)" "ParseFromString E k field_msg = Some vals"
  shows "decode_row E globals (MessageClass k) field_msg
     = Inr (PyDict (row_of \<lparr>msg_class = k, msg_values = vals\<rparr> k))"
  using assms(3) row_loop_class [OF assms(1,2), of vals] by (simp add: decode_row_def)


lemma decode_row_cases:
  assumes "label_repeated globals = Inr LABEL_REPEATED"
  shows "decode_row E globals (MessageClass k) r = Inl DecodeError \<and> ParseFromString E k r = None
   \<or> (\<exists>row. decode_row E globals (MessageClass k) r = Inr (PyDict row)
         \<and> ParseFromString E k r \<noteq> None)"
proof (cases "ParseFromString E k r")
  case None
  then show ?thesis by (simp add: decode_row_def)
next
  case (Some vals)
  obtain row where "row_loop globals \<lparr>msg_class = k, msg_values = vals\<rparr> [] k = Inr row"
    using row_loop_total [OF assms, of k "\<lparr>msg_class = k, msg_values = vals\<rparr>" "[]"] by auto
  then show ?thesis
    using Some by (simp add: decode_row_def)
qed

lemma rows_loop_error:
  assumes "label_repeated globals = Inr LABEL_REPEATED"
  shows "r \<in> set rows \<Longrightarrow> ParseFromString E k r = None \<Longrightarrow>
   rows_loop E globals (MessageClass k) acc rows = Inl DecodeError"
proof (induction rows arbitrary: acc)
  case Nil
  then show ?case by simp
next
  case (Cons a rows)
  show ?case
  proof (cases "ParseFromString E k a")
    case None
    then show ?thesis by (simp add: decode_row_def)
  next
    case (Some vals)
    with Cons.prems have "r \<in> set rows"
      by auto
    then have ih: "\<And>acc. rows_loop E globals (MessageClass k) acc rows = Inl DecodeError"
      using Cons by simp
    from decode_row_cases [OF assms, of E k a] Some obtain row
      where "decode_row E globals (MessageClass k) a = Inr (PyDict row)"
      by auto
    then show ?thesis
      using ih by simp
  qed
qed

lemma rows_loop_fails:
  "r \<in> set rows \<Longrightarrow> ParseFromString E k r = None \<Longrightarrow>
   \<exists>e. rows_loop E globals (MessageClass k) acc rows = Inl e"
proof (induction rows arbitrary: acc)
  case Nil
  then show ?case by simp
next
  case (Cons a rows)
  show ?case
  proof (cases "decode_row E globals (MessageClass k) a")
    case (Inl e)
    then show ?thesis by simp
  next
    case (Inr row)
    then have "ParseFromString E k a \<noteq> None"
      by (auto simp: decode_row_def split: option.splits)
    with Cons.prems have "r \<in> set rows"
      by auto
    then have "\<exists>e. rows_loop E globals (MessageClass k) (acc @ [row]) rows = Inl e"
      using Cons by simp
    then show ?thesis
      using Inr by simp
  qed
qed

lemma rows_loop_ok:
  "rows_loop E globals klass acc rows = Inr res \<Longrightarrow>
   \<exists>new. res = acc @ new \<and> length new = length rows
     \<and> (\<forall>i<length rows. decode_row E globals klass (rows ! i) = Inr (new ! i))"
proof (induction rows arbitrary: acc res)
  case Nil
  then show ?case by simp
next
  case (Cons a rows)
  from Cons.prems obtain row where a: "decode_row E globals klass a = Inr row"
    and rest: "rows_loop E globals klass (acc @ [row]) rows = Inr res"
    by (auto split: sum.splits)
  from Cons.IH [OF rest] obtain new where n: "res = (acc @ [row]) @ new"
    "length new = length rows"
    "\<forall>i<length rows. decode_row E globals klass (rows ! i) = Inr (new ! i)"
    by blast
  have "\<forall>i<length (a # rows). decode_row E globals klass ((a # rows) ! i) = Inr ((row # new) ! i)"
    using a n(3) by (auto simp: nth_Cons split: nat.splits)
  then show ?case
    using n by (intro exI [of _ "row # new"]) simp
qed

lemma export_block_ok:
  assumes "export_block E globals d w = (Inr u, w')"
  shows "\<exists>klass rows. globals (class_name (table d) (sheet d)) = Some klass
     \<and> rows_loop E globals klass [] (data d) = Inr rows
     \<and> w' = put (output_file (class_name (table d) (sheet d))) (JsonDoc (PyList rows))
              (open_w (output_file (class_name (table d) (sheet d))) w)"
  using assms
  by (auto simp: export_block_def Let_def dump_json_def split: option.splits sum.splits if_splits)

lemma export_block_other:
  "p \<noteq> output_file (class_name (table d) (sheet d)) \<Longrightarrow>
   files (snd (export_block E globals d w)) p = files w p"
  by (auto simp: export_block_def Let_def dump_json_def files_open_w files_put
      split: option.splits sum.splits)

lemma export_loop_other:
  "\<forall>d\<in>set ds. output_file (class_name (table d) (sheet d)) \<noteq> p \<Longrightarrow>
   files (snd (export_loop E globals ds w)) p = files w p"
proof (induction ds arbitrary: w)
  case Nil
  then show ?case by simp
next
  case (Cons d ds)
  obtain r w1 where b: "export_block E globals d w = (r, w1)"
    by (cases "export_block E globals d w")
  have f1: "files w1 p = files w p"
    using export_block_other [of p d E globals w] Cons.prems b by auto
  show ?case
  proof (cases r)
    case (Inl e)
    then show ?thesis using b f1 by simp
  next
    case (Inr u)
    have "files (snd (export_loop E globals ds w1)) p = files w1 p"
      using Cons by simp
    then show ?thesis using b f1 Inr by simp
  qed
qed

lemma export_loop_append:
  "export_loop E globals (xs @ ys) w
     = (case export_loop E globals xs w of
          (Inl e, w') \<Rightarrow> (Inl e, w')
        | (Inr u, w') \<Rightarrow> export_loop E globals ys w')"
  by (induction xs arbitrary: w) (auto split: prod.splits sum.splits)

lemma export_last_block:
  assumes "export_loop E globals (pre @ d # post) w = (Inr u, w')"
    and "\<forall>d'\<in>set post. class_name (table d') (sheet d') \<noteq> class_name (table d) (sheet d)"
  shows "\<exists>klass rows. globals (class_name (table d) (sheet d)) = Some klass
     \<and> rows_loop E globals klass [] (data d) = Inr rows
     \<and> files w' (output_file (class_name (table d) (sheet d))) = Some (JsonDoc (PyList rows))"
  using assms(1)
proof (induction pre arbitrary: w)
  case Nil
  then obtain u1 w1 where b: "export_block E globals d w = (Inr u1, w1)"
    and l: "export_loop E globals post w1 = (Inr u, w')"
    by (auto split: prod.splits sum.splits)
  from export_block_ok [OF b] obtain klass rows where k:
    "globals (class_name (table d) (sheet d)) = Some klass"
    "rows_loop E globals klass [] (data d) = Inr rows"
    "w1 = put (output_file (class_name (table d) (sheet d))) (JsonDoc (PyList rows))
              (open_w (output_file (class_name (table d) (sheet d))) w)"
    by blast
  have "files w' (output_file (class_name (table d) (sheet d)))
      = files w1 (output_file (class_name (table d) (sheet d)))"
    using export_loop_other [of post "output_file (class_name (table d) (sheet d))" E globals w1]
      assms(2) l by (simp add: output_file_inj)
  then show ?case
    using k by (auto simp: files_put)
next
  case (Cons a pre)
  then obtain u1 w1 where "export_loop E globals (pre @ d # post) w1 = (Inr u, w')"
    by (auto split: prod.splits sum.splits)
  then show ?case by (rule Cons.IH)
qed

section \<open>Decoded rows\<close>



text \<open>
  Claim C3. The dictionary of a decoded row has exactly one entry per field of the table's
  class, in the order in which the class declares the fields, and nothing else; the entry of
  a repeated field is a list of its values, made from the container of the message by line
  122, and the entry of a singular field is its attribute value. This holds whatever the row
  sets, so all rows of a table have the same shape. A row is decoded when it parses and the
  name \<^verbatim>\<open>FieldDescriptor\<close> is still bound to the class that the program imports.
\<close>

theorem row_shape:
  assumes "globals ''FieldDescriptor'' = Some FieldDescriptorClass"
    and "distinct (map fd_name k)" "ParseFromString E k field_msg = Some vals"
  shows "\<exists>row. decode_row E globals (MessageClass k) field_msg = Inr (PyDict row)
     \<and> map fst row = map fd_name k
     \<and> (\<forall>d\<in>set k. map_of row (fd_name d)
           = Some (if fd_label d = LABEL_REPEATED then PyList (vals (fd_name d))
                   else getattr \<lparr>msg_class = k, msg_values = vals\<rparr> d))"
proof -
  let ?m = "\<lparr>msg_class = k, msg_values = vals\<rparr>"
  have b: "label_repeated globals = Inr LABEL_REPEATED"
    using assms(1) by (simp add: label_repeated_def)
  have dec: "decode_row E globals (MessageClass k) field_msg = Inr (PyDict (row_of ?m k))"
    by (rule decode_row_class [OF b assms(2,3)])
  have keys: "map fst (row_of ?m k) = map fd_name k"
    by (simp add: row_of_def comp_def)
  have vals: "\<forall>d\<in>set k. map_of (row_of ?m k) (fd_name d)
      = Some (if fd_label d = LABEL_REPEATED then PyList (vals (fd_name d)) else getattr ?m d)"
    using map_of_row_of [OF assms(2), of _ ?m] by (simp add: row_value_def)
  show ?thesis
    using dec keys vals by blast
qed

theorem row_shape_witness:
  "item_globals ''FieldDescriptor'' = Some FieldDescriptorClass
   \<and> distinct (map fd_name item_class)
   \<and> ParseFromString item_env item_class [CHR 0x08, CHR 0x07] \<noteq> None
   \<and> decode_row item_env item_globals (MessageClass item_class) [CHR 0x08, CHR 0x07]
       = Inr (PyDict [(''id'', PyInt 7), (''tags'', PyList [])])
   \<and> map fd_name item_class = [''id'', ''tags'']
   \<and> getattr \<lparr>msg_class = item_class, msg_values = (\<lambda>n. [])\<rparr> (last item_class) = PyRepeated []"
proof -
  have h0: "item_globals ''FieldDescriptor'' = Some FieldDescriptorClass"
    by (simp add: item_globals_def main_globals_def)
  have h1: "distinct (map fd_name item_class)"
    by (simp add: item_class_def)
  have h2: "ParseFromString item_env item_class [CHR 0x08, CHR 0x07]
      = Some (\<lambda>n. if n = ''id'' then [PyInt (of_char (CHR 0x07))] else [])"
    by (simp add: item_env_def)
  have c: "decode_row item_env item_globals (MessageClass item_class) [CHR 0x08, CHR 0x07]
      = Inr (PyDict [(''id'', PyInt 7), (''tags'', PyList [])])"
    by code_simp
  have n: "map fd_name item_class = [''id'', ''tags'']"
    by (simp add: item_class_def)
  have g: "getattr \<lparr>msg_class = item_class, msg_values = (\<lambda>n. [])\<rparr> (last item_class)
      = PyRepeated []"
    by (simp add: item_class_def getattr_def)
  show ?thesis
    using h0 h1 h2 c n g
      row_shape [of item_globals item_class item_env "[CHR 0x08, CHR 0x07]"
        "\<lambda>n. if n = ''id'' then [PyInt (of_char (CHR 0x07))] else []", OF h0 h1 h2]
    by simp
qed

section \<open>Export\<close>

text \<open>
  Claim C1, as amended. An error of a row is not caught. When the data blocks before a block
  have been exported and a row of that block cannot be parsed, the export ends in that block
  with an error: the file of the table, emptied when it was opened, stays empty, the rows
  after the failing one and the data blocks after this one are not exported, and nothing is
  printed, no count of skipped rows either. With \<^verbatim>\<open>FieldDescriptor\<close> bound to the class
  that the program imports, the error is the decode error of the first row that cannot be
  parsed.
\<close>

theorem decode_error_aborts:
  assumes "export_loop E globals pre w = (Inr u, w1)"
    and "globals (class_name (table d) (sheet d)) = Some (MessageClass k)"
    and "r \<in> set (data d)" and "ParseFromString E k r = None"
  shows "(\<exists>e. export_loop E globals (pre @ d # post) w
             = (Inl e, open_w (output_file (class_name (table d) (sheet d))) w1))
     \<and> (globals ''FieldDescriptor'' = Some FieldDescriptorClass
          \<longrightarrow> export_loop E globals (pre @ d # post) w
                = (Inl DecodeError, open_w (output_file (class_name (table d) (sheet d))) w1))"
proof -
  obtain e where "rows_loop E globals (MessageClass k) [] (data d) = Inl e"
    using rows_loop_fails [OF assms(3,4)] by blast
  then have "export_loop E globals (d # post) w1
      = (Inl e, open_w (output_file (class_name (table d) (sheet d))) w1)"
    using assms(2) by (simp add: export_block_def Let_def)
  then have 1: "\<exists>e. export_loop E globals (pre @ d # post) w
      = (Inl e, open_w (output_file (class_name (table d) (sheet d))) w1)"
    using assms(1) by (simp add: export_loop_append)
  have 2: "export_loop E globals (pre @ d # post) w
      = (Inl DecodeError, open_w (output_file (class_name (table d) (sheet d))) w1)"
    if b: "globals ''FieldDescriptor'' = Some FieldDescriptorClass"
  proof -
    have "label_repeated globals = Inr LABEL_REPEATED"
      using b by (simp add: label_repeated_def)
    then have "rows_loop E globals (MessageClass k) [] (data d) = Inl DecodeError"
      using assms(3,4) by (rule rows_loop_error)
    then have "export_loop E globals (d # post) w1
        = (Inl DecodeError, open_w (output_file (class_name (table d) (sheet d))) w1)"
      using assms(2) by (simp add: export_block_def Let_def)
    then show ?thesis
      using assms(1) by (simp add: export_loop_append)
  qed
  show ?thesis
    using 1 2 by blast
qed

theorem decode_error_aborts_witness:
  "fst (export_loop item_env item_globals [item_block [[CHR 0x08, CHR 0x07]]] empty_world) = Inr ()
   \<and> ParseFromString item_env item_class [CHR 0x08] = None
   \<and> item_globals ''FieldDescriptor'' = Some FieldDescriptorClass
   \<and> export_loop item_env item_globals
        [item_block [[CHR 0x08, CHR 0x07]],
         item_block [[CHR 0x08, CHR 0x07], [CHR 0x08], [CHR 0x08, CHR 0x09]],
         item_block [[]]]
        empty_world
       = (Inl DecodeError,
          open_w ''data/ItemItem.json''
            (snd (export_loop item_env item_globals [item_block [[CHR 0x08, CHR 0x07]]] empty_world)))
   \<and> fst (export_loop item_env shadowed_globals
             [item_block [[CHR 0x08, CHR 0x07], [CHR 0x08]]] empty_world) = Inl AttributeError"
proof -
  let ?bad = "item_block [[CHR 0x08, CHR 0x07], [CHR 0x08], [CHR 0x08, CHR 0x09]]"
  let ?pre = "export_loop item_env item_globals [item_block [[CHR 0x08, CHR 0x07]]] empty_world"
  have cn: "class_name ''item'' ''item'' = ''ItemItem''"
    by code_simp
  have f: "fst ?pre = Inr ()"
    by code_simp
  have h0: "?pre = (Inr (), snd ?pre)"
    using f by (metis prod.collapse)
  have h1: "item_globals (class_name (table ?bad) (sheet ?bad)) = Some (MessageClass item_class)"
    by (simp add: item_block_def cn item_globals_def)
  have h2: "[CHR 0x08] \<in> set (data ?bad)"
    by (simp add: item_block_def)
  have h3: "ParseFromString item_env item_class [CHR 0x08] = None"
    by (simp add: item_env_def)
  have b: "item_globals ''FieldDescriptor'' = Some FieldDescriptorClass"
    by (simp add: item_globals_def main_globals_def)
  have o: "output_file (class_name (table ?bad) (sheet ?bad)) = ''data/ItemItem.json''"
    by (simp add: item_block_def cn output_file_def)
  have s: "fst (export_loop item_env shadowed_globals
             [item_block [[CHR 0x08, CHR 0x07], [CHR 0x08]]] empty_world) = Inl AttributeError"
    by code_simp
  show ?thesis
    using f h3 b s
      decode_error_aborts [of item_env item_globals "[item_block [[CHR 0x08, CHR 0x07]]]"
        empty_world "()" "snd ?pre" ?bad item_class "[CHR 0x08]" "[item_block [[]]]",
        OF h0 h1 h2 h3]
    unfolding o by simp
qed

text \<open>
  The claim as stated has the export go on after a corrupt row. With a first row that is
  truncated and a second row that is sound, the export ends with the decode error and the
  file of the table is empty; it does not hold the sound row.
\<close>

theorem decode_error_aborts_counterexample:
  "fst (export_loop item_env item_globals [item_block [[CHR 0x08], [CHR 0x08, CHR 0x07]]]
          empty_world) = Inl DecodeError
   \<and> files (snd (export_loop item_env item_globals [item_block [[CHR 0x08], [CHR 0x08, CHR 0x07]]]
                    empty_world)) ''data/ItemItem.json'' = Some (Blob [])
   \<and> files (snd (export_loop item_env item_globals [item_block [[CHR 0x08], [CHR 0x08, CHR 0x07]]]
                    empty_world)) ''data/ItemItem.json''
       \<noteq> Some (JsonDoc (PyList [PyDict [(''id'', PyInt 7), (''tags'', PyList [])]]))
   \<and> out (snd (export_loop item_env item_globals [item_block [[CHR 0x08], [CHR 0x08, CHR 0x07]]]
                  empty_world)) = [Write ''data/ItemItem.json'']"
  by code_simp

text \<open>
  Claim C5, as amended. The rows of a data block are decoded in their original order and
  written together, as one list, to the file named after the key of the table. Every data
  block opens that file anew: when several data blocks have the same key, the file holds at
  the end of a successful export the rows of the last of them only, one record per raw row
  in the order of the rows; the rows of the earlier blocks are replaced, not kept in front.
\<close>

theorem last_block_wins:
  assumes "export_loop E globals (pre @ d # post) w = (Inr u, w')"
    and "\<forall>d'\<in>set post. class_name (table d') (sheet d') \<noteq> class_name (table d) (sheet d)"
  shows "\<exists>klass rows. globals (class_name (table d) (sheet d)) = Some klass
     \<and> files w' (output_file (class_name (table d) (sheet d))) = Some (JsonDoc (PyList rows))
     \<and> length rows = length (data d)
     \<and> (\<forall>i<length (data d). decode_row E globals klass (data d ! i) = Inr (rows ! i))"
proof -
  obtain klass rows where k: "globals (class_name (table d) (sheet d)) = Some klass"
    "rows_loop E globals klass [] (data d) = Inr rows"
    "files w' (output_file (class_name (table d) (sheet d))) = Some (JsonDoc (PyList rows))"
    using export_last_block [OF assms] by blast
  from rows_loop_ok [OF k(2)] have "length rows = length (data d)"
    "\<forall>i<length (data d). decode_row E globals klass (data d ! i) = Inr (rows ! i)"
    by auto
  then show ?thesis
    using k by blast
qed

theorem last_block_wins_witness:
  "fst (export_loop item_env item_globals
          [item_block [[CHR 0x08, CHR 0x07]], item_block [[CHR 0x08, CHR 0x09], []]] empty_world)
     = Inr ()
   \<and> files (snd (export_loop item_env item_globals
          [item_block [[CHR 0x08, CHR 0x07]], item_block [[CHR 0x08, CHR 0x09], []]] empty_world))
        ''data/ItemItem.json''
     = Some (JsonDoc (PyList [PyDict [(''id'', PyInt 9), (''tags'', PyList [])],
                              PyDict [(''id'', PyInt 0), (''tags'', PyList [])]]))"
proof -
  let ?run = "export_loop item_env item_globals
      ([item_block [[CHR 0x08, CHR 0x07]]] @ item_block [[CHR 0x08, CHR 0x09], []] # []) empty_world"
  have f: "fst ?run = Inr ()"
    by code_simp
  have h1: "?run = (Inr (), snd ?run)"
    using f by (metis prod.collapse)
  have h2: "\<forall>d'\<in>set []. class_name (table d') (sheet d')
      \<noteq> class_name (table (item_block [[CHR 0x08, CHR 0x09], []]))
          (sheet (item_block [[CHR 0x08, CHR 0x09], []]))"
    by simp
  have c: "files (snd ?run) ''data/ItemItem.json''
      = Some (JsonDoc (PyList [PyDict [(''id'', PyInt 9), (''tags'', PyList [])],
                               PyDict [(''id'', PyInt 0), (''tags'', PyList [])]]))"
    by code_simp
  show ?thesis
    using f c last_block_wins [OF h1 h2] by simp
qed

text \<open>
  The claim as stated has the rows of data blocks of one table concatenated. With two data
  blocks of the same table, one row each, the file holds the row of the second block only.
\<close>

theorem last_block_wins_counterexample:
  "files (snd (export_loop item_env item_globals
          [item_block [[CHR 0x08, CHR 0x07]], item_block [[CHR 0x08, CHR 0x09]]] empty_world))
        ''data/ItemItem.json''
     = Some (JsonDoc (PyList [PyDict [(''id'', PyInt 9), (''tags'', PyList [])]]))
   \<and> files (snd (export_loop item_env item_globals
          [item_block [[CHR 0x08, CHR 0x07]], item_block [[CHR 0x08, CHR 0x09]]] empty_world))
        ''data/ItemItem.json''
     \<noteq> Some (JsonDoc (PyList [PyDict [(''id'', PyInt 7), (''tags'', PyList [])],
                              PyDict [(''id'', PyInt 9), (''tags'', PyList [])]]))"
  by code_simp

section \<open>Lemmas on the run\<close>

lemma keeps_find_resources:
  assumes "keeps p w w0"
  shows "keeps p w (snd (find_resources E v w0))"
proof -
  have "keeps p w0 (snd (find_resources E v w0))"
    unfolding find_resources_def Let_def
    by (simp split: sum.split option.split add: keeps_refl keeps_emit)
  with assms show ?thesis
    by (rule keeps_trans)
qed

lemma keeps_download:
  assumes "p \<noteq> ''config.proto''" "p \<noteq> ''lqc.lqbin''" "keeps p w w0"
  shows "keeps p w (snd (download E found w0))"
proof -
  have n: "''config.proto'' \<noteq> p" "''lqc.lqbin'' \<noteq> p"
    using assms(1,2) by auto
  have "keeps p w0 (snd (download E found w0))"
    unfolding download_def Let_def
    by (simp split: sum.split option.split
        add: keeps_refl keeps_emit keeps_write_file [OF n(1)] keeps_write_file [OF n(2)])
  with assms(3) show ?thesis
    by (rule keeps_trans)
qed

lemma keeps_run_protoc:
  assumes "name @ ''_pb2.py'' \<noteq> p" "keeps p w w0"
  shows "keeps p w (snd (run_protoc E name w0))"
proof -
  have "keeps p w0 (snd (run_protoc E name w0))"
    unfolding run_protoc_def Let_def
    by (simp split: option.split add: keeps_refl keeps_emit keeps_put [OF assms(1)])
  with assms(2) show ?thesis
    by (rule keeps_trans)
qed

lemma keeps_load_tables:
  assumes "p \<noteq> ''config_pb2.py''" "keeps p w w0"
  shows "keeps p w (snd (load_tables E w0))"
proof -
  obtain r w1 where r: "run_protoc E ''config'' w0 = (r, w1)"
    by (cases "run_protoc E ''config'' w0")
  have k1: "keeps p w w1"
    using keeps_run_protoc [of "''config''" p w w0 E] assms r by simp
  show ?thesis
    unfolding load_tables_def Let_def r
    by (simp split: sum.split option.split pyobj.split add: k1 keeps_emit)
qed

lemma keeps_generate:
  assumes "p \<noteq> ''parsed.proto''" "p \<noteq> ''parsed_pb2.py''" "keeps p w w0"
  shows "keeps p w (snd (generate E ct w0))"
proof -
  have n: "''parsed.proto'' \<noteq> p" "''parsed'' @ ''_pb2.py'' \<noteq> p"
    using assms(1,2) by auto
  show ?thesis
    unfolding generate_def Let_def
    by (intro keeps_run_protoc [OF n(2)] keeps_emit keeps_write_file [OF n(1)] assms(3))
qed

lemma keeps_export_block:
  assumes "\<And>cn. output_file cn \<noteq> p" "keeps p w w0"
  shows "keeps p w (snd (export_block E globals d w0))"
  unfolding export_block_def Let_def dump_json_def
  by (simp split: option.split sum.split add: assms keeps_open_w keeps_put)

lemma keeps_export_loop:
  assumes "\<And>cn. output_file cn \<noteq> p"
  shows "keeps p w w0 \<Longrightarrow> keeps p w (snd (export_loop E globals ds w0))"
proof (induction ds arbitrary: w0)
  case Nil
  then show ?case by simp
next
  case (Cons d ds)
  obtain r w1 where b: "export_block E globals d w0 = (r, w1)"
    by (cases "export_block E globals d w0")
  have k: "keeps p w w1"
    using keeps_export_block [OF assms Cons.prems, of E globals d] b by simp
  show ?case
  proof (cases r)
    case (Inl e)
    then show ?thesis using b k by simp
  next
    case (Inr u)
    then show ?thesis using b Cons.IH [OF k] by simp
  qed
qed

lemma keeps_export:
  assumes "\<And>cn. output_file cn \<noteq> p" "keeps p w w0"
  shows "keeps p w (snd (export E globals ct w0))"
proof -
  have l: "\<And>g e e'. keeps p w (snd (export_loop E g (datas ct) (emit e' (emit e w0))))"
    by (intro keeps_export_loop [OF assms(1)] keeps_emit assms(2))
  have m: "\<And>g e e' r w3.
      export_loop E g (datas ct) (emit e' (emit e w0)) = (r, w3) \<Longrightarrow> keeps p w w3"
    using l by (metis snd_conv)
  show ?thesis
    unfolding export_def Let_def
    by (auto split: option.split sum.split prod.split simp: keeps_emit assms(2) dest: m)
qed

lemma keeps_update:
  assumes "p \<noteq> ''config.proto''" "p \<noteq> ''lqc.lqbin''" "p \<noteq> ''config_pb2.py''"
    "p \<noteq> ''parsed.proto''" "p \<noteq> ''parsed_pb2.py''" "\<And>cn. output_file cn \<noteq> p"
  shows "keeps p w (snd (update E v w))"
proof -
  let ?w1 = "snd (find_resources E v w)"
  have k1: "keeps p w ?w1"
    by (rule keeps_find_resources [OF keeps_refl])
  have k2: "\<And>found. keeps p w (snd (download E found ?w1))"
    by (rule keeps_download [OF assms(1,2) k1])
  have k3: "\<And>found. keeps p w (snd (load_tables E (snd (download E found ?w1))))"
    by (rule keeps_load_tables [OF assms(3) k2])
  have k4: "\<And>found ct.
      keeps p w (snd (generate E ct (snd (load_tables E (snd (download E found ?w1))))))"
    by (rule keeps_generate [OF assms(4,5) k3])
  have k5: "\<And>found ct g. keeps p w
      (snd (export E g ct (snd (generate E ct (snd (load_tables E (snd (download E found ?w1))))))))"
    by (rule keeps_export [OF assms(6) k4])
  show ?thesis
    unfolding update_def
    by (simp split: sum.split add: split_beta k1 k2 k3 k4 k5)
qed

lemma keeps_update_version: "keeps ''version.json'' w (snd (update E v w))"
  by (rule keeps_update) (simp_all add: output_file_not_version)

lemma check_version_differs:
  assumes "requests_get E (URL @ ''/version.json'') = Some body" "json_of body = Some live"
    "files w ''version.json'' = Some c" "json_of c = Some local" "\<not> py_eq local live"
  shows "check_version E w = (Inr live,
      put ''version.json'' (JsonDoc live) (open_w ''version.json''
        (emit (Print (''New Live version: '' @ py_str E live))
           (emit (Get (URL @ ''/version.json'')) w))))"
  using assms json_of_ok [OF assms(2)]
  by (simp add: check_version_def Let_def files_emit dump_json_def)

lemma check_version_same:
  assumes "requests_get E (URL @ ''/version.json'') = Some body" "json_of body = Some live"
    "files w ''version.json'' = Some c" "json_of c = Some local" "py_eq local live"
  shows "check_version E w = (Inl (SystemExit 0),
        emit (Print ''No update'') (emit (Get (URL @ ''/version.json'')) w))"
  using assms
  by (simp add: check_version_def Let_def files_emit)

section \<open>The version check\<close>

text \<open>
  Claim C9. When the live version document that the server returns equals the document in
  the local \<^verbatim>\<open>version.json\<close>, the run prints \<open>No update\<close> and ends with exit status 0.
  It has made one request, for the version document, and nothing else: no resource is
  fetched, no file is written or changed.
\<close>

theorem no_update:
  assumes "requests_get E (URL @ ''/version.json'') = Some body" "json_of body = Some live"
    "files w ''version.json'' = Some c" "json_of c = Some local" "py_eq local live"
  shows "main E w = (Inl (SystemExit 0),
           w\<lparr>out := out w @ [Get (URL @ ''/version.json''), Print ''No update'']\<rparr>)"
  using check_version_same [OF assms]
  by (simp add: main_def emit_def)

theorem no_update_witness:
  "py_eq (PyDict [(''force_version'', PyStr ''0.10.0.w''), (''version'', PyStr ''0.11.1.w'')]) live_doc
   \<and> main item_env
        (disk (PyDict [(''force_version'', PyStr ''0.10.0.w''), (''version'', PyStr ''0.11.1.w'')]))
     = (Inl (SystemExit 0),
        (disk (PyDict [(''force_version'', PyStr ''0.10.0.w''), (''version'', PyStr ''0.11.1.w'')]))
          \<lparr>out := [Get ''https://game.maj-soul.com/1/version.json'', Print ''No update'']\<rparr>)"
proof -
  let ?local = "PyDict [(''force_version'', PyStr ''0.10.0.w''), (''version'', PyStr ''0.11.1.w'')]"
  have h1: "requests_get item_env (URL @ ''/version.json'') = Some (JsonDoc live_doc)"
    by (simp add: item_env_def version_only_get_def)
  have h2: "json_of (JsonDoc live_doc) = Some live_doc"
    by (simp add: live_doc_def)
  have h3: "files (disk ?local) ''version.json'' = Some (JsonDoc ?local)"
    by (simp add: disk_def)
  have h4: "json_of (JsonDoc ?local) = Some ?local"
    by simp
  have h5: "py_eq ?local live_doc"
    by (simp add: live_doc_def)
  show ?thesis
    using h5 no_update [OF h1 h2 h3 h4 h5] by (simp add: URL_def disk_def)
qed

text \<open>
  Claim C8. When the live version document differs from the local one, the run stores the
  live document in \<^verbatim>\<open>version.json\<close> right after the version request, before it asks for
  the resource index or for any resource. Nothing later in the run writes that file again:
  however the rest of the run ends, with an error or not, \<^verbatim>\<open>version.json\<close> holds the new
  version.
\<close>

theorem version_written_first:
  assumes "requests_get E (URL @ ''/version.json'') = Some body" "json_of body = Some live"
    "files w ''version.json'' = Some c" "json_of c = Some local" "\<not> py_eq local live"
  shows "files (snd (main E w)) ''version.json'' = Some (JsonDoc live)
     \<and> (\<exists>later. out (snd (main E w))
           = out w @ [Get (URL @ ''/version.json''),
                      Print (''New Live version: '' @ py_str E live),
                      Write ''version.json''] @ later)"
proof -
  let ?w1 = "put ''version.json'' (JsonDoc live) (open_w ''version.json''
        (emit (Print (''New Live version: '' @ py_str E live))
           (emit (Get (URL @ ''/version.json'')) w)))"
  have m: "main E w = update E live ?w1"
    using check_version_differs [OF assms] by (simp add: main_def)
  have k: "keeps ''version.json'' ?w1 (snd (update E live ?w1))"
    by (rule keeps_update_version)
  have f: "files ?w1 ''version.json'' = Some (JsonDoc live)"
    by (simp add: files_put)
  have o: "out ?w1 = out w @ [Get (URL @ ''/version.json''),
                      Print (''New Live version: '' @ py_str E live),
                      Write ''version.json'']"
    by (simp add: put_def open_w_def emit_def)
  show ?thesis
    using k f o unfolding m keeps_def by auto
qed

theorem version_written_first_witness:
  "\<not> py_eq old_doc live_doc
   \<and> fst (main item_env (disk old_doc)) = Inl ConnectionError
   \<and> files (snd (main item_env (disk old_doc))) ''version.json'' = Some (JsonDoc live_doc)
   \<and> out (snd (main item_env (disk old_doc)))
       = [Get ''https://game.maj-soul.com/1/version.json'',
          Print (''New Live version: {'' @ [CHR 0x27] @ ''version'' @ [CHR 0x27] @ '': ''
                   @ [CHR 0x27] @ ''0.11.1.w'' @ [CHR 0x27] @ '', ''
                   @ [CHR 0x27] @ ''force_version'' @ [CHR 0x27] @ '': ''
                   @ [CHR 0x27] @ ''0.10.0.w'' @ [CHR 0x27] @ ''}''),
          Write ''version.json'',
          Get ''https://game.maj-soul.com/1/resversion0.11.1.w.json'']"
proof -
  have h1: "requests_get item_env (URL @ ''/version.json'') = Some (JsonDoc live_doc)"
    by (simp add: item_env_def version_only_get_def)
  have h2: "json_of (JsonDoc live_doc) = Some live_doc"
    by (simp add: live_doc_def)
  have h3: "files (disk old_doc) ''version.json'' = Some (JsonDoc old_doc)"
    by (simp add: disk_def)
  have h4: "json_of (JsonDoc old_doc) = Some old_doc"
    by (simp add: old_doc_def)
  have h5: "\<not> py_eq old_doc live_doc"
    by (simp add: live_doc_def old_doc_def)
  have e: "fst (main item_env (disk old_doc)) = Inl ConnectionError"
    by code_simp
  have o: "out (snd (main item_env (disk old_doc)))
       = [Get ''https://game.maj-soul.com/1/version.json'',
          Print (''New Live version: {'' @ [CHR 0x27] @ ''version'' @ [CHR 0x27] @ '': ''
                   @ [CHR 0x27] @ ''0.11.1.w'' @ [CHR 0x27] @ '', ''
                   @ [CHR 0x27] @ ''force_version'' @ [CHR 0x27] @ '': ''
                   @ [CHR 0x27] @ ''0.10.0.w'' @ [CHR 0x27] @ ''}''),
          Write ''version.json'',
          Get ''https://game.maj-soul.com/1/resversion0.11.1.w.json'']"
    by code_simp
  show ?thesis
    using h5 e o version_written_first [OF h1 h2 h3 h4 h5] by simp
qed

end
